theory Spec2Isabelle
  imports Main
begin

section \<open>The P2P transport of the beacon SDK\<close>

text \<open>
  A shallow embedding of \<^verbatim>\<open>src/transports/P2PTransport.ts\<close>. The class talks to three
  collaborators that are not part of the file: the storage (\<^verbatim>\<open>get\<close>/\<^verbatim>\<open>set\<close> of the
  peer list under the key \<^verbatim>\<open>TRANSPORT_P2P_PEERS\<close>), the communication client
  (\<^verbatim>\<open>P2PCommunicationClient\<close>) and the event handler (\<^verbatim>\<open>BeaconEventHandler\<close>).
  What a collaborator answers is a parameter of every operation (the record \<open>env\<close>);
  what the transport does to the collaborators is recorded, call by call, in the state
  (the record \<open>world\<close>).

  Every method is \<^verbatim>\<open>async\<close>. An operation of the model runs a method from its call up
  to the point where its promise is fulfilled, is rejected, or can only be settled by a
  later event (the pairing of a new peer); each awaited collaborator promise is taken to
  settle. Operations, and invocations of the channel-opening callback, follow one another
  without overlapping; only \<^verbatim>\<open>connectNewPeer\<close>, whose promise cannot be awaited before
  the next call, is also given cut at its \<^verbatim>\<open>await\<close>s, for two calls in the same turn.
\<close>

subsection \<open>Data\<close>

text \<open>The three fields of a stored peer, as \<^verbatim>\<open>addPeer\<close> and the callback write them.\<close>

record Peer =
  name :: string
  pubKey :: string
  relayServer :: string

text \<open>
  \<^verbatim>\<open>TransportStatus\<close> is imported by the source, which names its member
  \<^verbatim>\<open>CONNECTING\<close>. Modelled from the spec: the other two members, the states
  \<^emph>\<open>Disconnected\<close> (initial) and \<^emph>\<open>Connected\<close> of section 3.
\<close>

datatype TransportStatus = NOT_CONNECTED | CONNECTING | CONNECTED

text \<open>A JavaScript \<^verbatim>\<open>Error\<close> value, known by its message.\<close>

datatype error = Error string

datatype BeaconEvent = P2P_CHANNEL_CONNECT_SUCCESS | P2P_LISTEN_FOR_CHANNEL_OPEN

text \<open>The handshake information of the client is opaque to the transport.\<close>

type_synonym HandshakeInfo = string

text \<open>The calls the transport makes on the storage, the client and the event handler.\<close>

datatype call =
    ClientStart
  | StorageGet
  | StorageSet "Peer list"
  | ListenForChannelOpening
  | GetHandshakeInfo
  | OpenChannel string string
  | SendMessage string string
  | ListenForEncryptedMessage string
  | UnsubscribeFromEncryptedMessage string
  | UnsubscribeFromEncryptedMessages
  | Emit BeaconEvent "HandshakeInfo option"

text \<open>
  The second argument of a \<^verbatim>\<open>logger.log(method, ...)\<close> statement; a number interpolated
  into the message is kept as a number.
\<close>

datatype log_arg =
    NoArg
  | PeerArg Peer
  | ConnectingToPeers nat
  | NewPubKey string
  | Connected nat
  | PeerAdded nat
  | PeersLeft nat

text \<open>
  What reaches the logger and the console. \<open>UnhandledRejection\<close> stands for an error
  thrown inside the \<^verbatim>\<open>async\<close> executor of \<^verbatim>\<open>connectNewPeer\<close>, which no handler
  receives.
\<close>

datatype log_entry =
    LoggerLog string log_arg
  | LoggerError error
  | ConsoleWarn error
  | UnhandledRejection error

text \<open>
  A collaborator promise: the logical time at which it settles, counted from the call,
  and what it settles with (\<open>Inl\<close> a rejection). The time only orders the promises
  handed to \<^verbatim>\<open>Promise.all\<close>.
\<close>

type_synonym 'a promise = "nat \<times> (error + 'a)"

text \<open>
  The promise of a transport method, as far as the method itself settles it:
  \<open>Pending\<close> when only a later invocation of the channel-opening callback can.
\<close>

datatype 'a outcome = Resolved 'a | Rejected error | Pending

text \<open>
  What the code after \<^verbatim>\<open>await this.connectNewPeer()\<close> does once that promise is
  resolved: \<^verbatim>\<open>connect\<close> goes on to \<^verbatim>\<open>super.connect()\<close>, \<^verbatim>\<open>reconnect\<close> (and a
  caller outside the class) to nothing in this class.
\<close>

datatype continuation = ThenSuperConnect | ThenNothing

text \<open>
  The answers of the collaborators. The first argument of every answer is the number of
  collaborator calls made before this one, so that two calls with the same arguments may
  be answered differently.
\<close>

record env =
  start_answer :: "nat \<Rightarrow> error + unit"
  get_answer :: "nat \<Rightarrow> error + unit"
  set_answer :: "nat \<Rightarrow> Peer list \<Rightarrow> error + unit"
  listenForChannelOpening_answer :: "nat \<Rightarrow> error + unit"
  getHandshakeInfo_answer :: "nat \<Rightarrow> error + HandshakeInfo"
  openChannel_answer :: "nat \<Rightarrow> string \<Rightarrow> string \<Rightarrow> error + unit"
  sendMessage_answer :: "nat \<Rightarrow> string \<Rightarrow> string \<Rightarrow> unit promise"
  listenForEncryptedMessage_answer :: "nat \<Rightarrow> string \<Rightarrow> unit promise"
  unsubscribeFromEncryptedMessage_answer :: "nat \<Rightarrow> string \<Rightarrow> error + unit"
  unsubscribeFromEncryptedMessages_answer :: "nat \<Rightarrow> error + unit"
  emit_answer :: "nat \<Rightarrow> BeaconEvent \<Rightarrow> HandshakeInfo option \<Rightarrow> error + unit"

text \<open>
  The transport and its surroundings. \<open>isConnected\<close>, \<open>isDapp\<close> and
  \<open>listeningForChannelOpenings\<close> are the fields of the class; \<open>storage_peers\<close> is the
  list the storage holds; \<open>channelOpeningCallbacks\<close> has one entry for every callback
  the client accepted through \<^verbatim>\<open>listenForChannelOpening\<close>: the \<^verbatim>\<open>resolve\<close> function
  the callback closes over, as the continuation it releases, or \<open>None\<close> once it has
  been called.
\<close>

record world =
  isConnected :: TransportStatus
  isDapp :: bool
  listeningForChannelOpenings :: bool
  storage_peers :: "Peer list"
  channelOpeningCallbacks :: "continuation option list"
  calls :: "call list"
  logged :: "log_entry list"

text \<open>
  The constructor. Modelled from the spec: the initial value \<open>NOT_CONNECTED\<close> of
  \<^verbatim>\<open>_isConnected\<close>, a field of the base class \<^verbatim>\<open>Transport\<close>; and the empty peer list
  of a storage never written to.
\<close>

definition init :: "bool \<Rightarrow> world" where
  "init dapp =
     \<lparr> isConnected = NOT_CONNECTED, isDapp = dapp, listeningForChannelOpenings = False,
       storage_peers = [], channelOpeningCallbacks = [], calls = [], logged = [] \<rparr>"

subsection \<open>Collaborator calls\<close>

definition record_call :: "call \<Rightarrow> world \<Rightarrow> world" where
  "record_call c w = w\<lparr>calls := calls w @ [c]\<rparr>"

definition write_log :: "log_entry \<Rightarrow> world \<Rightarrow> world" where
  "write_log l w = w\<lparr>logged := logged w @ [l]\<rparr>"

definition call_no :: "world \<Rightarrow> nat" where
  "call_no w = length (calls w)"

definition client_start :: "env \<Rightarrow> world \<Rightarrow> world \<times> (error + unit)" where
  "client_start e w = (record_call ClientStart w, start_answer e (call_no w))"

text \<open>
  Modelled from the spec: the storage is a key-value store whose \<^verbatim>\<open>get\<close> returns the
  list last written (a value of its own, not shared with the store) and whose \<^verbatim>\<open>set\<close>
  replaces it; a \<^verbatim>\<open>set\<close> that fails leaves the store as it was.
\<close>

definition storage_get :: "env \<Rightarrow> world \<Rightarrow> world \<times> (error + Peer list)" where
  "storage_get e w =
     (record_call StorageGet w,
      case get_answer e (call_no w) of Inl err \<Rightarrow> Inl err | Inr _ \<Rightarrow> Inr (storage_peers w))"

definition storage_set :: "env \<Rightarrow> Peer list \<Rightarrow> world \<Rightarrow> world \<times> (error + unit)" where
  "storage_set e ps w =
     (case set_answer e (call_no w) ps of
        Inl err \<Rightarrow> (record_call (StorageSet ps) w, Inl err)
      | Inr _ \<Rightarrow> (record_call (StorageSet ps) (w\<lparr>storage_peers := ps\<rparr>), Inr ()))"

text \<open>
  The client keeps the callback it is handed iff the call succeeds; \<open>k\<close> is the
  continuation behind the \<^verbatim>\<open>resolve\<close> that the callback closes over.
\<close>

definition client_listenForChannelOpening ::
  "env \<Rightarrow> continuation \<Rightarrow> world \<Rightarrow> world \<times> (error + unit)" where
  "client_listenForChannelOpening e k w =
     (case listenForChannelOpening_answer e (call_no w) of
        Inl err \<Rightarrow> (record_call ListenForChannelOpening w, Inl err)
      | Inr _ \<Rightarrow>
          (record_call ListenForChannelOpening
             (w\<lparr>channelOpeningCallbacks := channelOpeningCallbacks w @ [Some k]\<rparr>), Inr ()))"

definition client_getHandshakeInfo :: "env \<Rightarrow> world \<Rightarrow> world \<times> (error + HandshakeInfo)" where
  "client_getHandshakeInfo e w =
     (record_call GetHandshakeInfo w, getHandshakeInfo_answer e (call_no w))"

definition client_openChannel ::
  "env \<Rightarrow> string \<Rightarrow> string \<Rightarrow> world \<Rightarrow> world \<times> (error + unit)" where
  "client_openChannel e pk relay w =
     (record_call (OpenChannel pk relay) w, openChannel_answer e (call_no w) pk relay)"

definition client_sendMessage ::
  "env \<Rightarrow> string \<Rightarrow> string \<Rightarrow> world \<Rightarrow> world \<times> unit promise" where
  "client_sendMessage e pk message w =
     (record_call (SendMessage pk message) w, sendMessage_answer e (call_no w) pk message)"

definition client_listenForEncryptedMessage ::
  "env \<Rightarrow> string \<Rightarrow> world \<Rightarrow> world \<times> unit promise" where
  "client_listenForEncryptedMessage e pk w =
     (record_call (ListenForEncryptedMessage pk) w,
      listenForEncryptedMessage_answer e (call_no w) pk)"

definition client_unsubscribeFromEncryptedMessage ::
  "env \<Rightarrow> string \<Rightarrow> world \<Rightarrow> world \<times> (error + unit)" where
  "client_unsubscribeFromEncryptedMessage e pk w =
     (record_call (UnsubscribeFromEncryptedMessage pk) w,
      unsubscribeFromEncryptedMessage_answer e (call_no w) pk)"

definition client_unsubscribeFromEncryptedMessages ::
  "env \<Rightarrow> world \<Rightarrow> world \<times> (error + unit)" where
  "client_unsubscribeFromEncryptedMessages e w =
     (record_call UnsubscribeFromEncryptedMessages w,
      unsubscribeFromEncryptedMessages_answer e (call_no w))"

text \<open>
  \<^verbatim>\<open>this.events.emit(...).catch((emitError) => console.warn(emitError))\<close>: the promise
  is not awaited and a rejection only reaches the console.
\<close>

definition events_emit_caught ::
  "env \<Rightarrow> BeaconEvent \<Rightarrow> HandshakeInfo option \<Rightarrow> world \<Rightarrow> world" where
  "events_emit_caught e ev payload w =
     (case emit_answer e (call_no w) ev payload of
        Inl err \<Rightarrow> write_log (ConsoleWarn err) (record_call (Emit ev payload) w)
      | Inr _ \<Rightarrow> record_call (Emit ev payload) w)"

subsection \<open>Promises\<close>

text \<open>
  \<^verbatim>\<open>await p\<close> inside an \<^verbatim>\<open>async\<close> method: a rejection of \<open>p\<close> rejects the method,
  a value is handed to the rest of the body.
\<close>

definition await ::
  "world \<times> (error + 'a) \<Rightarrow> ('a \<Rightarrow> world \<Rightarrow> world \<times> 'b outcome) \<Rightarrow> world \<times> 'b outcome" where
  "await p body = (case p of (w, Inl err) \<Rightarrow> (w, Rejected err) | (w, Inr v) \<Rightarrow> body v w)"

text \<open>
  \<^verbatim>\<open>Promise.all\<close>: rejected as soon as one of the promises is, with that rejection (the
  earliest to settle; of two that settle at the same time, the one listed first);
  otherwise fulfilled with all the values once the last promise has settled.
\<close>

fun promise_all :: "'a promise list \<Rightarrow> 'a list promise" where
  "promise_all [] = (0, Inr [])"
| "promise_all ((t, r) # ps) =
     (case (r, promise_all ps) of
        (Inl err, (t', Inl err')) \<Rightarrow> if t' < t then (t', Inl err') else (t, Inl err)
      | (Inl err, (t', Inr vs)) \<Rightarrow> (t, Inl err)
      | (Inr v, (t', Inl err')) \<Rightarrow> (t', Inl err')
      | (Inr v, (t', Inr vs)) \<Rightarrow> (max t t', Inr (v # vs)))"

subsection \<open>The methods of the class\<close>

text \<open>
  Modelled from the spec: \<^verbatim>\<open>connect\<close> of the base class \<^verbatim>\<open>Transport\<close>, which
  \<^verbatim>\<open>connect\<close> reaches through \<^verbatim>\<open>super\<close>: the transition to \<^emph>\<open>Connected\<close>.
\<close>

definition super_connect :: "world \<Rightarrow> world \<times> unit outcome" where
  "super_connect w = (w\<lparr>isConnected := CONNECTED\<rparr>, Resolved ())"

text \<open>
  \<^verbatim>\<open>listen\<close> hands the promise of \<^verbatim>\<open>listenForEncryptedMessage\<close> on; its
  \<^verbatim>\<open>catch\<close> handler throws the error again.
\<close>

definition listen :: "env \<Rightarrow> string \<Rightarrow> world \<Rightarrow> world \<times> unit promise" where
  "listen e pk w = client_listenForEncryptedMessage e pk w"

text \<open>\<^verbatim>\<open>knownPeers.map(async (peer) => this.listen(peer.pubKey))\<close>: the calls, in order.\<close>

fun listen_each :: "env \<Rightarrow> Peer list \<Rightarrow> world \<Rightarrow> world \<times> unit promise list" where
  "listen_each e [] w = (w, [])"
| "listen_each e (p # ps) w =
     (case listen e (pubKey p) w of
        (w1, r) \<Rightarrow> (case listen_each e ps w1 of (w2, rs) \<Rightarrow> (w2, r # rs)))"

text \<open>
  \<^verbatim>\<open>connectNewPeer\<close>. The promise it returns is resolved only by the callback handed
  to \<^verbatim>\<open>listenForChannelOpening\<close>, so the method itself leaves it pending, also when
  the executor throws. \<open>k\<close> is what the caller does after the promise is resolved.
\<close>

definition connectNewPeer :: "env \<Rightarrow> continuation \<Rightarrow> world \<Rightarrow> world \<times> unit outcome" where
  "connectNewPeer e k w0 =
     (let w1 = write_log (LoggerLog ''connectNewPeer'' NoArg) w0;
          installed =
            (if \<not> listeningForChannelOpenings w1 then
               (case client_listenForChannelOpening e k w1 of
                  (w2, Inl err) \<Rightarrow> (w2, Inl err)
                | (w2, Inr _) \<Rightarrow> (w2\<lparr>listeningForChannelOpenings := True\<rparr>, Inr ()))
             else (w1, Inr ()))
      in case installed of
           (w3, Inl err) \<Rightarrow> (write_log (UnhandledRejection err) w3, Pending)
         | (w3, Inr _) \<Rightarrow>
             (case client_getHandshakeInfo e w3 of
                (w4, Inl err) \<Rightarrow> (write_log (UnhandledRejection err) w4, Pending)
              | (w4, Inr info) \<Rightarrow>
                  (events_emit_caught e P2P_LISTEN_FOR_CHANNEL_OPEN (Some info) w4, Pending)))"

text \<open>
  The executor of \<^verbatim>\<open>connectNewPeer\<close> once more, cut at its \<^verbatim>\<open>await\<close>s, for calls
  that overlap. It is suspended either at
  \<^verbatim>\<open>await this.client.listenForChannelOpening(...)\<close> or at
  \<^verbatim>\<open>await this.client.getHandshakeInfo()\<close>; the call awaited has been made, and
  \<open>suspended\<close> holds what its promise settles with.
\<close>

datatype suspended = AwaitListen "error + unit" | AwaitHandshakeInfo "error + HandshakeInfo"

text \<open>From the call of \<^verbatim>\<open>connectNewPeer\<close> to the first \<^verbatim>\<open>await\<close>.\<close>

definition connectNewPeer_start :: "env \<Rightarrow> continuation \<Rightarrow> world \<Rightarrow> world \<times> suspended" where
  "connectNewPeer_start e k w0 =
     (let w1 = write_log (LoggerLog ''connectNewPeer'' NoArg) w0
      in if \<not> listeningForChannelOpenings w1 then
           (case client_listenForChannelOpening e k w1 of (w2, r) \<Rightarrow> (w2, AwaitListen r))
         else
           (case client_getHandshakeInfo e w1 of (w2, h) \<Rightarrow> (w2, AwaitHandshakeInfo h)))"

text \<open>
  From one \<^verbatim>\<open>await\<close> to the next, or to the end of the executor (\<open>None\<close>). The flag
  is set here, after the promise of \<^verbatim>\<open>listenForChannelOpening\<close> has been fulfilled.
\<close>

definition connectNewPeer_resume :: "env \<Rightarrow> suspended \<Rightarrow> world \<Rightarrow> world \<times> suspended option" where
  "connectNewPeer_resume e s w =
     (case s of
        AwaitListen (Inl err) \<Rightarrow> (write_log (UnhandledRejection err) w, None)
      | AwaitListen (Inr _) \<Rightarrow>
          (case client_getHandshakeInfo e (w\<lparr>listeningForChannelOpenings := True\<rparr>) of
             (w', h) \<Rightarrow> (w', Some (AwaitHandshakeInfo h)))
      | AwaitHandshakeInfo (Inl err) \<Rightarrow> (write_log (UnhandledRejection err) w, None)
      | AwaitHandshakeInfo (Inr info) \<Rightarrow>
          (events_emit_caught e P2P_LISTEN_FOR_CHANNEL_OPEN (Some info) w, None))"

text \<open>
  \<^verbatim>\<open>transport.connectNewPeer(); transport.connectNewPeer()\<close>: two calls in the same turn
  of the event loop. Each call runs up to its first \<^verbatim>\<open>await\<close> before the caller goes
  on; the executors are then resumed in turn, in the order in which they were suspended.
\<close>

definition connectNewPeer_twice :: "env \<Rightarrow> world \<Rightarrow> world" where
  "connectNewPeer_twice e w =
     (case connectNewPeer_start e ThenNothing w of (w1, s1) \<Rightarrow>
      case connectNewPeer_start e ThenNothing w1 of (w2, s2) \<Rightarrow>
      case connectNewPeer_resume e s1 w2 of (w3, r1) \<Rightarrow>
      case connectNewPeer_resume e s2 w3 of (w4, r2) \<Rightarrow>
        let w5 = (case r1 of Some s \<Rightarrow> fst (connectNewPeer_resume e s w4) | None \<Rightarrow> w4)
        in (case r2 of Some s \<Rightarrow> fst (connectNewPeer_resume e s w5) | None \<Rightarrow> w5))"

text \<open>
  The callback handed to \<^verbatim>\<open>listenForChannelOpening\<close>, up to its call of
  \<^verbatim>\<open>resolve\<close>: \<open>Resolved\<close> says that the call is reached. The write to the storage is
  not awaited and its failure is only logged.
\<close>

definition onChannelOpening :: "env \<Rightarrow> string \<Rightarrow> world \<Rightarrow> world \<times> unit outcome" where
  "onChannelOpening e pk w0 =
     (let w1 = write_log (LoggerLog ''connectNewPeer'' (NewPubKey pk)) w0
      in await (storage_get e w1) (\<lambda>knownPeers w2.
           await
             (if \<not> list_ex (\<lambda>peer. pubKey peer = pk) knownPeers then
                (let knownPeers' = knownPeers @ [\<lparr>name = '''', pubKey = pk, relayServer = ''''\<rparr>];
                     w3 = (case storage_set e knownPeers' w2 of
                             (w, Inl storageError) \<Rightarrow> write_log (LoggerError storageError) w
                           | (w, Inr _) \<Rightarrow> w)
                 in case listen e pk w3 of (w4, l) \<Rightarrow> (w4, snd l))
              else (w2, Inr ()))
             (\<lambda>_ w5. (events_emit_caught e P2P_CHANNEL_CONNECT_SUCCESS None w5, Resolved ()))))"

text \<open>What a released continuation does.\<close>

definition continue :: "continuation \<Rightarrow> world \<Rightarrow> world" where
  "continue k w = (case k of ThenSuperConnect \<Rightarrow> fst (super_connect w) | ThenNothing \<Rightarrow> w)"

text \<open>
  \<^verbatim>\<open>resolve()\<close> of the \<open>i\<close>-th callback the client holds: the first call releases the
  continuation, later calls do nothing.
\<close>

definition resolve :: "nat \<Rightarrow> world \<Rightarrow> world" where
  "resolve i w =
     (if i < length (channelOpeningCallbacks w) then
        (case channelOpeningCallbacks w ! i of
           Some k \<Rightarrow> continue k (w\<lparr>channelOpeningCallbacks := (channelOpeningCallbacks w)[i := None]\<rparr>)
         | None \<Rightarrow> w)
      else w)"

definition invoke_callback :: "env \<Rightarrow> string \<Rightarrow> nat \<Rightarrow> world \<Rightarrow> world" where
  "invoke_callback e pk i w =
     (case onChannelOpening e pk w of
        (w', Resolved _) \<Rightarrow> resolve i w'
      | (w', _) \<Rightarrow> w')"

text \<open>
  A channel opening for \<open>pk\<close> arrives at the client, which invokes every callback it
  holds.
\<close>

definition channelOpening :: "env \<Rightarrow> string \<Rightarrow> world \<Rightarrow> world" where
  "channelOpening e pk w =
     fold (invoke_callback e pk) [0 ..< length (channelOpeningCallbacks w)] w"

definition connect :: "env \<Rightarrow> world \<Rightarrow> world \<times> unit outcome" where
  "connect e w0 =
     (let w1 = write_log (LoggerLog ''connect'' NoArg) w0;
          w2 = w1\<lparr>isConnected := CONNECTING\<rparr>
      in await (client_start e w2) (\<lambda>_ w3.
         await (storage_get e w3) (\<lambda>knownPeers w4.
           if length knownPeers > 0 then
             (let w5 = write_log (LoggerLog ''connect'' (ConnectingToPeers (length knownPeers))) w4
              in case listen_each e knownPeers w5 of
                   (w6, connectionPromises) \<Rightarrow>
                     await (w6, snd (promise_all connectionPromises)) (\<lambda>_ w7. super_connect w7))
           else if isDapp w4 then
             (case connectNewPeer e ThenSuperConnect w4 of
                (w5, Resolved _) \<Rightarrow> super_connect w5
              | (w5, Rejected err) \<Rightarrow> (w5, Rejected err)
              | (w5, Pending) \<Rightarrow> (w5, Pending))
           else super_connect w4)))"

definition reconnect :: "env \<Rightarrow> world \<Rightarrow> world \<times> unit outcome" where
  "reconnect e w =
     (if isDapp w then
        (case connectNewPeer e ThenNothing w of
           (w1, Resolved _) \<Rightarrow> (w1, Resolved ())
         | (w1, Rejected err) \<Rightarrow> (w1, Rejected err)
         | (w1, Pending) \<Rightarrow> (w1, Pending))
      else (w, Resolved ()))"

definition getPeers :: "env \<Rightarrow> world \<Rightarrow> world \<times> Peer list outcome" where
  "getPeers e w0 =
     (let w1 = write_log (LoggerLog ''getPeers'' NoArg) w0
      in await (storage_get e w1) (\<lambda>peers w2.
           (write_log (LoggerLog ''getPeers'' (Connected (length peers))) w2, Resolved peers)))"

definition addPeer :: "env \<Rightarrow> Peer \<Rightarrow> world \<Rightarrow> world \<times> unit outcome" where
  "addPeer e newPeer w0 =
     (let w1 = write_log (LoggerLog ''addPeer'' (PeerArg newPeer)) w0
      in await (storage_get e w1) (\<lambda>peers w2.
           if \<not> list_ex (\<lambda>peer. pubKey peer = pubKey newPeer) peers then
             (let peers' = peers @ [\<lparr>name = name newPeer, pubKey = pubKey newPeer,
                                     relayServer = relayServer newPeer\<rparr>]
              in await (storage_set e peers' w2) (\<lambda>_ w3.
                 let w4 = write_log (LoggerLog ''addPeer'' (PeerAdded (length peers'))) w3
                 in await (client_openChannel e (pubKey newPeer) (relayServer newPeer) w4) (\<lambda>_ w5.
                    case listen e (pubKey newPeer) w5 of
                      (w6, l) \<Rightarrow> await (w6, snd l) (\<lambda>_ w7. (w7, Resolved ())))))
           else (w2, Resolved ())))"

text \<open>\<^verbatim>\<open>this.client\<close> is set by the constructor, so \<^verbatim>\<open>if (this.client)\<close> holds.\<close>

definition removePeer :: "env \<Rightarrow> Peer \<Rightarrow> world \<Rightarrow> world \<times> unit outcome" where
  "removePeer e peerToBeRemoved w0 =
     (let w1 = write_log (LoggerLog ''removePeer'' (PeerArg peerToBeRemoved)) w0
      in await (storage_get e w1) (\<lambda>peers0 w2.
           let peers = filter (\<lambda>peer. pubKey peer \<noteq> pubKey peerToBeRemoved) peers0
           in await (storage_set e peers w2) (\<lambda>_ w3.
                await (client_unsubscribeFromEncryptedMessage e (pubKey peerToBeRemoved) w3) (\<lambda>_ w4.
                  (write_log (LoggerLog ''removePeer'' (PeersLeft (length peers))) w4,
                   Resolved ())))))"

definition removeAllPeers :: "env \<Rightarrow> world \<Rightarrow> world \<times> unit outcome" where
  "removeAllPeers e w0 =
     (let w1 = write_log (LoggerLog ''removeAllPeers'' NoArg) w0
      in await (storage_set e [] w1) (\<lambda>_ w2.
           await (client_unsubscribeFromEncryptedMessages e w2) (\<lambda>_ w3. (w3, Resolved ()))))"

text \<open>
  \<^verbatim>\<open>if (recipient)\<close>: an optional string counts as given when it is neither
  \<^verbatim>\<open>undefined\<close> nor the empty string.
\<close>

definition truthy :: "string option \<Rightarrow> bool" where
  "truthy recipient = (case recipient of None \<Rightarrow> False | Some r \<Rightarrow> r \<noteq> [])"

text \<open>\<^verbatim>\<open>knownPeers.map((peer) => this.client.sendMessage(peer.pubKey, message))\<close>.\<close>

fun sendMessage_each :: "env \<Rightarrow> string \<Rightarrow> Peer list \<Rightarrow> world \<Rightarrow> world \<times> unit promise list" where
  "sendMessage_each e message [] w = (w, [])"
| "sendMessage_each e message (p # ps) w =
     (case client_sendMessage e (pubKey p) message w of
        (w1, r) \<Rightarrow> (case sendMessage_each e message ps w1 of (w2, rs) \<Rightarrow> (w2, r # rs)))"

text \<open>
  \<^verbatim>\<open>send\<close>, with the time at which its promise settles, counted from the moment the
  list of peers has been read. The value of a broadcast is element 0 of the values, or
  \<^verbatim>\<open>undefined\<close>; the values of \<^verbatim>\<open>sendMessage\<close> carry nothing.
\<close>

definition send :: "env \<Rightarrow> string \<Rightarrow> string option \<Rightarrow> world \<Rightarrow> world \<times> unit promise" where
  "send e message recipient w0 =
     (case storage_get e w0 of
        (w1, Inl err) \<Rightarrow> (w1, (0, Inl err))
      | (w1, Inr knownPeers) \<Rightarrow>
          if truthy recipient then
            (if \<not> list_ex (\<lambda>peer. pubKey peer = the recipient) knownPeers then
               (w1, (0, Inl (Error ''Recipient unknown'')))
             else client_sendMessage e (the recipient) message w1)
          else
            (case sendMessage_each e message knownPeers w1 of
               (w2, promises) \<Rightarrow>
                 (case promise_all promises of
                    (t, Inl err) \<Rightarrow> (w2, (t, Inl err))
                  | (t, Inr vs) \<Rightarrow> (w2, (t, Inr (case vs of [] \<Rightarrow> () | v # _ \<Rightarrow> v))))))"

subsection \<open>Sequences of operations\<close>

datatype operation =
    Connect
  | Reconnect
  | ConnectNewPeer
  | GetPeers
  | AddPeer Peer
  | RemovePeer Peer
  | RemoveAllPeers
  | Send string "string option"
  | ChannelOpening string

definition step :: "env \<Rightarrow> operation \<Rightarrow> world \<Rightarrow> world" where
  "step e op w =
     (case op of
        Connect \<Rightarrow> fst (connect e w)
      | Reconnect \<Rightarrow> fst (reconnect e w)
      | ConnectNewPeer \<Rightarrow> fst (connectNewPeer e ThenNothing w)
      | GetPeers \<Rightarrow> fst (getPeers e w)
      | AddPeer p \<Rightarrow> fst (addPeer e p w)
      | RemovePeer p \<Rightarrow> fst (removePeer e p w)
      | RemoveAllPeers \<Rightarrow> fst (removeAllPeers e w)
      | Send message recipient \<Rightarrow> fst (send e message recipient w)
      | ChannelOpening pk \<Rightarrow> channelOpening e pk w)"

text \<open>Operations one after the other, each with the collaborators' answers of its time.\<close>

fun run :: "(env \<times> operation) list \<Rightarrow> world \<Rightarrow> world" where
  "run [] w = w"
| "run ((e, op) # rest) w = run rest (step e op w)"

subsection \<open>Collaborators and states for concrete runs\<close>

text \<open>Collaborators that always succeed; every promise settles at time 1.\<close>

definition env_ok :: env where
  "env_ok =
     \<lparr> start_answer = (\<lambda>_. Inr ()),
       get_answer = (\<lambda>_. Inr ()),
       set_answer = (\<lambda>_ _. Inr ()),
       listenForChannelOpening_answer = (\<lambda>_. Inr ()),
       getHandshakeInfo_answer = (\<lambda>_. Inr ''handshake''),
       openChannel_answer = (\<lambda>_ _ _. Inr ()),
       sendMessage_answer = (\<lambda>_ _ _. (1, Inr ())),
       listenForEncryptedMessage_answer = (\<lambda>_ _. (1, Inr ())),
       unsubscribeFromEncryptedMessage_answer = (\<lambda>_ _. Inr ()),
       unsubscribeFromEncryptedMessages_answer = (\<lambda>_. Inr ()),
       emit_answer = (\<lambda>_ _ _. Inr ()) \<rparr>"

text \<open>A storage whose writes fail.\<close>

definition env_set_fails :: env where
  "env_set_fails = env_ok\<lparr>set_answer := (\<lambda>_ _. Inl (Error ''write failed''))\<rparr>"

text \<open>
  A client whose send to \<open>A\<close> succeeds at time 5, whose send to \<open>B\<close> fails at time 2
  and whose send to \<open>C\<close> fails at time 1.
\<close>

definition env_send_fails :: env where
  "env_send_fails =
     env_ok\<lparr>sendMessage_answer := (\<lambda>_ pk _.
        if pk = ''B'' then (2, Inl (Error ''B unreachable''))
        else if pk = ''C'' then (1, Inl (Error ''C unreachable''))
        else (5, Inr ()))\<rparr>"

text \<open>A client on which listening for the messages of \<open>B\<close> fails.\<close>

definition env_listen_fails :: env where
  "env_listen_fails =
     env_ok\<lparr>listenForEncryptedMessage_answer := (\<lambda>_ pk.
        if pk = ''B'' then (1, Inl (Error ''B unreachable'')) else (1, Inr ()))\<rparr>"

definition peer_A :: Peer where
  "peer_A = \<lparr>name = ''Alice'', pubKey = ''A'', relayServer = ''relay.a''\<rparr>"

definition peer_B :: Peer where
  "peer_B = \<lparr>name = ''Bob'', pubKey = ''B'', relayServer = ''relay.b''\<rparr>"

definition peer_C :: Peer where
  "peer_C = \<lparr>name = ''Carol'', pubKey = ''C'', relayServer = ''relay.c''\<rparr>"

text \<open>A new transport over a storage that already holds peers.\<close>

definition world_with :: "bool \<Rightarrow> Peer list \<Rightarrow> world" where
  "world_with dapp ps = (init dapp)\<lparr>storage_peers := ps\<rparr>"

subsection \<open>The guard of the channel-opening listener\<close>

text \<open>
  What the guard of \<^verbatim>\<open>connectNewPeer\<close> is about: the flag, the number of callbacks the
  client holds, and the number of \<^verbatim>\<open>listenForChannelOpening\<close> calls made so far.
\<close>

definition guard_view :: "world \<Rightarrow> bool \<times> nat \<times> nat" where
  "guard_view w =
     (listeningForChannelOpenings w, length (channelOpeningCallbacks w),
      count_list (calls w) ListenForChannelOpening)"

text \<open>The flag is set iff the client holds a callback, and it holds at most one.\<close>

definition guard_ok :: "world \<Rightarrow> bool" where
  "guard_ok w \<longleftrightarrow>
     length (channelOpeningCallbacks w) = (if listeningForChannelOpenings w then 1 else 0)"

section \<open>Properties\<close>

subsection \<open>Unfolding\<close>

lemmas collab_defs =
  record_call_def write_log_def call_no_def client_start_def storage_get_def storage_set_def
  client_listenForChannelOpening_def client_getHandshakeInfo_def client_openChannel_def
  client_sendMessage_def client_listenForEncryptedMessage_def
  client_unsubscribeFromEncryptedMessage_def client_unsubscribeFromEncryptedMessages_def
  events_emit_caught_def await_def listen_def super_connect_def

lemmas concrete_defs =
  env_ok_def env_set_fails_def env_send_fails_def env_listen_fails_def
  peer_A_def peer_B_def peer_C_def world_with_def init_def

lemma Peer_eta: "\<lparr>name = name p, pubKey = pubKey p, relayServer = relayServer p\<rparr> = p"
  by simp

subsection \<open>What is stored for a peer\<close>

text \<open>
  Claim C10. The channel-opening callback changes the stored list, if at all, by appending
  a record whose \<open>name\<close> and \<open>relayServer\<close> are empty and whose \<open>pubKey\<close> is the
  key received; it does so whenever the key is new and the storage answers. \<^verbatim>\<open>addPeer\<close>
  changes the stored list, if at all, by appending the peer with the \<open>name\<close>,
  \<open>pubKey\<close> and \<open>relayServer\<close> it was given; it does so whenever the key is new and the
  storage answers.
\<close>

theorem stored_peer_fields:
  "(storage_peers (fst (onChannelOpening e pk w)) = storage_peers w \<or>
    storage_peers (fst (onChannelOpening e pk w)) =
      storage_peers w @ [\<lparr>name = '''', pubKey = pk, relayServer = ''''\<rparr>]) \<and>
   (get_answer e (call_no w) = Inr () \<and>
    \<not> list_ex (\<lambda>peer. pubKey peer = pk) (storage_peers w) \<and>
    set_answer e (Suc (call_no w))
      (storage_peers w @ [\<lparr>name = '''', pubKey = pk, relayServer = ''''\<rparr>]) = Inr ()
    \<longrightarrow> storage_peers (fst (onChannelOpening e pk w)) =
          storage_peers w @ [\<lparr>name = '''', pubKey = pk, relayServer = ''''\<rparr>]) \<and>
   (storage_peers (fst (addPeer e p w)) = storage_peers w \<or>
    storage_peers (fst (addPeer e p w)) = storage_peers w @ [p]) \<and>
   (get_answer e (call_no w) = Inr () \<and>
    \<not> list_ex (\<lambda>peer. pubKey peer = pubKey p) (storage_peers w) \<and>
    set_answer e (Suc (call_no w)) (storage_peers w @ [p]) = Inr ()
    \<longrightarrow> storage_peers (fst (addPeer e p w)) = storage_peers w @ [p])"
proof (intro conjI impI)
  show "storage_peers (fst (onChannelOpening e pk w)) = storage_peers w \<or>
    storage_peers (fst (onChannelOpening e pk w)) =
      storage_peers w @ [\<lparr>name = '''', pubKey = pk, relayServer = ''''\<rparr>]"
    by (simp add: onChannelOpening_def Let_def collab_defs split: sum.splits prod.splits)
next
  assume "get_answer e (call_no w) = Inr () \<and>
    \<not> list_ex (\<lambda>peer. pubKey peer = pk) (storage_peers w) \<and>
    set_answer e (Suc (call_no w))
      (storage_peers w @ [\<lparr>name = '''', pubKey = pk, relayServer = ''''\<rparr>]) = Inr ()"
  then show "storage_peers (fst (onChannelOpening e pk w)) =
          storage_peers w @ [\<lparr>name = '''', pubKey = pk, relayServer = ''''\<rparr>]"
    by (simp add: onChannelOpening_def Let_def collab_defs split: sum.splits prod.splits)
next
  show "storage_peers (fst (addPeer e p w)) = storage_peers w \<or>
    storage_peers (fst (addPeer e p w)) = storage_peers w @ [p]"
    by (simp add: addPeer_def Let_def collab_defs Peer_eta split: sum.splits prod.splits)
next
  assume "get_answer e (call_no w) = Inr () \<and>
    \<not> list_ex (\<lambda>peer. pubKey peer = pubKey p) (storage_peers w) \<and>
    set_answer e (Suc (call_no w)) (storage_peers w @ [p]) = Inr ()"
  then show "storage_peers (fst (addPeer e p w)) = storage_peers w @ [p]"
    by (simp add: addPeer_def Let_def collab_defs Peer_eta split: sum.splits prod.splits)
qed

theorem stored_peer_fields_witness:
  "storage_peers (fst (onChannelOpening env_ok ''K'' (world_with True [peer_A]))) =
     [peer_A, \<lparr>name = '''', pubKey = ''K'', relayServer = ''''\<rparr>] \<and>
   storage_peers (fst (addPeer env_ok peer_B (world_with True [peer_A]))) = [peer_A, peer_B]"
  using stored_peer_fields [of env_ok "''K''" "world_with True [peer_A]" peer_B]
  by (simp add: concrete_defs call_no_def)

subsection \<open>Reconnecting\<close>

lemma connectNewPeer_Pending: "snd (connectNewPeer e k w) = Pending"
  by (simp add: connectNewPeer_def Let_def collab_defs split: sum.splits prod.splits)

lemma connectNewPeer_isConnected: "isConnected (fst (connectNewPeer e k w)) = isConnected w"
  by (simp add: connectNewPeer_def Let_def collab_defs split: sum.splits prod.splits)

lemma connectNewPeer_storage: "storage_peers (fst (connectNewPeer e k w)) = storage_peers w"
  by (simp add: connectNewPeer_def Let_def collab_defs split: sum.splits prod.splits)

text \<open>
  Claim C9. \<^verbatim>\<open>reconnect\<close> leaves the field \<^verbatim>\<open>_isConnected\<close> (and the stored peers) as
  they are, whatever the collaborators answer. Where the transport is a dApp it does what
  \<^verbatim>\<open>connectNewPeer\<close> does, and its promise then waits for a pairing; otherwise it
  does nothing and is fulfilled at once.
\<close>

theorem reconnect_keeps_state:
  "isConnected (fst (reconnect e w)) = isConnected w \<and>
   storage_peers (fst (reconnect e w)) = storage_peers w \<and>
   reconnect e w =
     (if isDapp w then (fst (connectNewPeer e ThenNothing w), Pending) else (w, Resolved ()))"
proof -
  obtain w1 where c: "connectNewPeer e ThenNothing w = (w1, Pending)"
    using connectNewPeer_Pending [of e ThenNothing w]
    by (cases "connectNewPeer e ThenNothing w") simp
  have "isConnected w1 = isConnected w" "storage_peers w1 = storage_peers w"
    using connectNewPeer_isConnected [of e ThenNothing w]
      connectNewPeer_storage [of e ThenNothing w] c by simp_all
  then show ?thesis by (simp add: reconnect_def c)
qed

theorem reconnect_keeps_state_witness:
  "isConnected (fst (reconnect env_ok (fst (connect env_ok (world_with True [peer_A]))))) =
     CONNECTED"
proof -
  let ?w = "fst (connect env_ok (world_with True [peer_A]))"
  have c: "isConnected ?w = CONNECTED"
    by (simp add: connect_def Let_def collab_defs concrete_defs)
  have "isConnected (fst (reconnect env_ok ?w)) = isConnected ?w"
    using reconnect_keeps_state [of env_ok ?w] by (rule conjunct1)
  with c show ?thesis by simp
qed

subsection \<open>Removing a peer\<close>

text \<open>
  Claim C8, at a peer \<open>A\<close> removed once from a registry that does not hold it and once
  from a registry that does. \<^verbatim>\<open>removePeer\<close> returns nothing, and its log line gives the
  number of peers left: the two calls end with the same outcome, the same log, the same
  collaborator calls and the same stored list, so neither reports whether a deletion
  occurred.
\<close>

theorem removePeer_report_counterexample:
  "\<not> list_ex (\<lambda>peer. pubKey peer = pubKey peer_A) (storage_peers (world_with True [peer_B])) \<and>
   list_ex (\<lambda>peer. pubKey peer = pubKey peer_A)
     (storage_peers (world_with True [peer_A, peer_B])) \<and>
   snd (removePeer env_ok peer_A (world_with True [peer_B])) = Resolved () \<and>
   snd (removePeer env_ok peer_A (world_with True [peer_A, peer_B])) = Resolved () \<and>
   logged (fst (removePeer env_ok peer_A (world_with True [peer_B]))) =
     [LoggerLog ''removePeer'' (PeerArg peer_A), LoggerLog ''removePeer'' (PeersLeft 1)] \<and>
   logged (fst (removePeer env_ok peer_A (world_with True [peer_A, peer_B]))) =
     [LoggerLog ''removePeer'' (PeerArg peer_A), LoggerLog ''removePeer'' (PeersLeft 1)] \<and>
   calls (fst (removePeer env_ok peer_A (world_with True [peer_B]))) =
     calls (fst (removePeer env_ok peer_A (world_with True [peer_A, peer_B]))) \<and>
   storage_peers (fst (removePeer env_ok peer_A (world_with True [peer_B]))) =
     storage_peers (fst (removePeer env_ok peer_A (world_with True [peer_A, peer_B])))"
  by (simp add: removePeer_def Let_def collab_defs concrete_defs)

text \<open>
  Claim C8, amended. Removing a peer whose key no stored record has leaves the stored list
  as it is, whatever the collaborators answer. \<^verbatim>\<open>removePeer\<close> returns nothing; when it
  succeeds, what it logs is the peer it was given and the number of peers left, with or
  without a deletion. With or without a record of that key, once the read and the write
  of the list have succeeded the transport unsubscribes from the messages of that key.
\<close>

theorem removePeer_absent:
  "(\<not> list_ex (\<lambda>peer. pubKey peer = pubKey x) (storage_peers w) \<longrightarrow>
      storage_peers (fst (removePeer e x w)) = storage_peers w) \<and>
   (snd (removePeer e x w) = Resolved () \<longrightarrow>
      logged (fst (removePeer e x w)) =
        logged w @
          [LoggerLog ''removePeer'' (PeerArg x),
           LoggerLog ''removePeer''
             (PeersLeft (length (filter (\<lambda>peer. pubKey peer \<noteq> pubKey x) (storage_peers w))))]) \<and>
   (get_answer e (call_no w) = Inr () \<and>
    set_answer e (Suc (call_no w))
      (filter (\<lambda>peer. pubKey peer \<noteq> pubKey x) (storage_peers w)) = Inr () \<longrightarrow>
      calls (fst (removePeer e x w)) =
        calls w @ [StorageGet,
                   StorageSet (filter (\<lambda>peer. pubKey peer \<noteq> pubKey x) (storage_peers w)),
                   UnsubscribeFromEncryptedMessage (pubKey x)])"
proof (intro conjI impI)
  assume a: "\<not> list_ex (\<lambda>peer. pubKey peer = pubKey x) (storage_peers w)"
  then have f: "filter (\<lambda>peer. pubKey peer \<noteq> pubKey x) (storage_peers w) = storage_peers w"
    by (simp add: list_ex_iff)
  show "storage_peers (fst (removePeer e x w)) = storage_peers w"
    by (simp add: removePeer_def Let_def collab_defs f split: sum.splits prod.splits)
next
  assume "snd (removePeer e x w) = Resolved ()"
  then show "logged (fst (removePeer e x w)) =
        logged w @
          [LoggerLog ''removePeer'' (PeerArg x),
           LoggerLog ''removePeer''
             (PeersLeft (length (filter (\<lambda>peer. pubKey peer \<noteq> pubKey x) (storage_peers w))))]"
    by (simp add: removePeer_def Let_def collab_defs split: sum.splits)
next
  assume "get_answer e (call_no w) = Inr () \<and>
    set_answer e (Suc (call_no w))
      (filter (\<lambda>peer. pubKey peer \<noteq> pubKey x) (storage_peers w)) = Inr ()"
  then show "calls (fst (removePeer e x w)) =
        calls w @ [StorageGet,
                   StorageSet (filter (\<lambda>peer. pubKey peer \<noteq> pubKey x) (storage_peers w)),
                   UnsubscribeFromEncryptedMessage (pubKey x)]"
    by (simp add: removePeer_def Let_def collab_defs split: sum.splits prod.splits)
qed

theorem removePeer_absent_witness:
  "\<not> list_ex (\<lambda>peer. pubKey peer = pubKey peer_A) (storage_peers (world_with True [peer_B])) \<and>
   removePeer env_ok peer_A (world_with True [peer_B]) =
     ((world_with True [peer_B])
        \<lparr>calls := [StorageGet, StorageSet [peer_B], UnsubscribeFromEncryptedMessage ''A''],
         logged := [LoggerLog ''removePeer'' (PeerArg peer_A),
                    LoggerLog ''removePeer'' (PeersLeft 1)]\<rparr>, Resolved ()) \<and>
   calls (fst (removePeer env_ok peer_A (world_with True [peer_A, peer_B]))) =
     [StorageGet, StorageSet [peer_B], UnsubscribeFromEncryptedMessage ''A'']"
  using removePeer_absent [of peer_A "world_with True [peer_B]" env_ok]
    removePeer_absent [of peer_A "world_with True [peer_A, peer_B]" env_ok]
  by (simp add: removePeer_def Let_def collab_defs concrete_defs)

subsection \<open>Sending to one peer\<close>

text \<open>
  Claim C3, at a recipient that is the empty string. The empty string is the key of
  no stored peer, yet \<^verbatim>\<open>if (recipient)\<close> takes it for an omitted recipient: the
  message is sent to every stored peer and the call succeeds.
\<close>

theorem send_empty_recipient_counterexample:
  "\<not> list_ex (\<lambda>peer. pubKey peer = '''') (storage_peers (world_with True [peer_A])) \<and>
   snd (send env_ok ''m'' (Some '''') (world_with True [peer_A])) = (1, Inr ()) \<and>
   calls (fst (send env_ok ''m'' (Some '''') (world_with True [peer_A]))) =
     [StorageGet, SendMessage ''A'' ''m'']"
  by (simp add: send_def truthy_def collab_defs concrete_defs)

text \<open>
  Claim C3, amended. For a recipient that is a non-empty string: if the read of the peer
  list fails, \<^verbatim>\<open>send\<close> fails with that error; if no stored peer has the recipient as
  its key, \<^verbatim>\<open>send\<close> fails with the error \<^verbatim>\<open>Recipient unknown\<close>; in both cases the
  read is the only collaborator call and nothing else changes. If a stored peer has the
  key, \<^verbatim>\<open>send\<close> makes exactly one \<^verbatim>\<open>sendMessage\<close> call, to the recipient, and
  returns its promise.
\<close>

theorem send_unicast:
  assumes "r \<noteq> []"
  shows
    "(case get_answer e (call_no w) of
        Inl err \<Rightarrow> send e message (Some r) w = (record_call StorageGet w, (0, Inl err))
      | Inr _ \<Rightarrow>
          if list_ex (\<lambda>peer. pubKey peer = r) (storage_peers w) then
            send e message (Some r) w =
              (w\<lparr>calls := calls w @ [StorageGet, SendMessage r message]\<rparr>,
               sendMessage_answer e (Suc (call_no w)) r message)
          else
            send e message (Some r) w =
              (record_call StorageGet w, (0, Inl (Error ''Recipient unknown''))))"
  using assms
  by (simp add: send_def truthy_def collab_defs split: sum.splits)

theorem send_unicast_witness:
  "''Z'' \<noteq> [] \<and>
   send env_ok ''m'' (Some ''Z'') (world_with True [peer_A]) =
     ((world_with True [peer_A])\<lparr>calls := [StorageGet]\<rparr>, (0, Inl (Error ''Recipient unknown''))) \<and>
   send env_ok ''m'' (Some ''A'') (world_with True [peer_A]) =
     ((world_with True [peer_A])\<lparr>calls := [StorageGet, SendMessage ''A'' ''m'']\<rparr>, (1, Inr ()))"
  using send_unicast [where r = "''Z''" and e = env_ok and w = "world_with True [peer_A]"
      and message = "''m''"]
    send_unicast [where r = "''A''" and e = env_ok and w = "world_with True [peer_A]"
      and message = "''m''"]
  by (simp add: collab_defs concrete_defs)

subsection \<open>Adding a peer\<close>

text \<open>
  Claim C4. Let the storage answer the first \<^verbatim>\<open>addPeer\<close> of a peer, and let the stored
  list hold at most one record with the peer's key. The first call appends the peer iff
  no stored record has its key. After the second call exactly one stored record has the
  key. The second call reads the list and does nothing else: no write, no
  \<^verbatim>\<open>openChannel\<close>, no \<^verbatim>\<open>listenForEncryptedMessage\<close>, and no \<^verbatim>\<open>peer added\<close>
  line in the log (\<^verbatim>\<open>addPeer\<close> returns nothing; that line is its report of an
  insertion).
\<close>

theorem addPeer_twice:
  assumes "get_answer e1 (call_no w) = Inr ()"
    and "set_answer e1 (Suc (call_no w)) (storage_peers w @ [p]) = Inr ()"
    and "length (filter (\<lambda>peer. pubKey peer = pubKey p) (storage_peers w)) \<le> 1"
  shows
    "storage_peers (fst (addPeer e1 p w)) =
       (if list_ex (\<lambda>peer. pubKey peer = pubKey p) (storage_peers w) then storage_peers w
        else storage_peers w @ [p]) \<and>
     length (filter (\<lambda>peer. pubKey peer = pubKey p)
       (storage_peers (fst (addPeer e2 p (fst (addPeer e1 p w)))))) = 1 \<and>
     fst (addPeer e2 p (fst (addPeer e1 p w))) =
       (fst (addPeer e1 p w))
         \<lparr>calls := calls (fst (addPeer e1 p w)) @ [StorageGet],
          logged := logged (fst (addPeer e1 p w)) @ [LoggerLog ''addPeer'' (PeerArg p)]\<rparr> \<and>
     snd (addPeer e2 p (fst (addPeer e1 p w))) =
       (case get_answer e2 (call_no (fst (addPeer e1 p w))) of
          Inl err \<Rightarrow> Rejected err | Inr _ \<Rightarrow> Resolved ())"
proof -
  let ?known = "\<lambda>ps. list_ex (\<lambda>peer. pubKey peer = pubKey p) ps"
  let ?w1 = "fst (addPeer e1 p w)"
  have first: "storage_peers ?w1 =
      (if ?known (storage_peers w) then storage_peers w else storage_peers w @ [p])"
    using assms(1,2)
    by (simp add: addPeer_def Let_def collab_defs Peer_eta split: sum.splits prod.splits)
  then have known1: "?known (storage_peers ?w1)"
    by (simp add: list_ex_iff)
  have count1: "length (filter (\<lambda>peer. pubKey peer = pubKey p) (storage_peers ?w1)) = 1"
  proof (cases "?known (storage_peers w)")
    case True
    then have "filter (\<lambda>peer. pubKey peer = pubKey p) (storage_peers w) \<noteq> []"
      by (simp add: list_ex_iff filter_empty_conv)
    then have "0 < length (filter (\<lambda>peer. pubKey peer = pubKey p) (storage_peers w))"
      by simp
    with assms(3) have "length (filter (\<lambda>peer. pubKey peer = pubKey p) (storage_peers w)) = 1"
      by linarith
    with True first show ?thesis by simp
  next
    case False
    then have "filter (\<lambda>peer. pubKey peer = pubKey p) (storage_peers w) = []"
      by (simp add: list_ex_iff filter_empty_conv)
    with False first show ?thesis by simp
  qed
  have second: "addPeer e2 p ?w1 =
      (?w1\<lparr>calls := calls ?w1 @ [StorageGet],
            logged := logged ?w1 @ [LoggerLog ''addPeer'' (PeerArg p)]\<rparr>,
       case get_answer e2 (call_no ?w1) of Inl err \<Rightarrow> Rejected err | Inr _ \<Rightarrow> Resolved ())"
    using known1
    by (simp add: addPeer_def [of e2] Let_def collab_defs split: sum.splits)
  show ?thesis
    using first count1 by (simp add: second)
qed

theorem addPeer_twice_witness:
  "get_answer env_ok (call_no (init True)) = Inr () \<and>
   set_answer env_ok (Suc (call_no (init True))) (storage_peers (init True) @ [peer_A]) = Inr () \<and>
   length (filter (\<lambda>peer. pubKey peer = pubKey peer_A) (storage_peers (init True))) \<le> 1 \<and>
   storage_peers (fst (addPeer env_ok peer_A (init True))) = [peer_A] \<and>
   storage_peers (fst (addPeer env_ok peer_A (fst (addPeer env_ok peer_A (init True))))) =
     [peer_A] \<and>
   calls (fst (addPeer env_ok peer_A (fst (addPeer env_ok peer_A (init True))))) =
     [StorageGet, StorageSet [peer_A], OpenChannel ''A'' ''relay.a'',
      ListenForEncryptedMessage ''A'', StorageGet] \<and>
   snd (addPeer env_ok peer_A (fst (addPeer env_ok peer_A (init True)))) = Resolved ()"
proof -
  have h: "get_answer env_ok (call_no (init True)) = Inr ()"
    "set_answer env_ok (Suc (call_no (init True))) (storage_peers (init True) @ [peer_A]) = Inr ()"
    "length (filter (\<lambda>peer. pubKey peer = pubKey peer_A) (storage_peers (init True))) \<le> 1"
    by (simp_all add: concrete_defs)
  have first: "fst (addPeer env_ok peer_A (init True)) =
      (init True)\<lparr>storage_peers := [peer_A],
        calls := [StorageGet, StorageSet [peer_A], OpenChannel ''A'' ''relay.a'',
                  ListenForEncryptedMessage ''A''],
        logged := [LoggerLog ''addPeer'' (PeerArg peer_A), LoggerLog ''addPeer'' (PeerAdded 1)]\<rparr>"
    by (simp add: addPeer_def Let_def collab_defs concrete_defs)
  show ?thesis
    using h addPeer_twice [OF h, of env_ok]
    by (simp add: first) (simp add: concrete_defs call_no_def)
qed

subsection \<open>Connecting with an empty registry\<close>



subsection \<open>Promises awaited together\<close>

lemma promise_all_Inr:
  "promise_all ps = (t, Inr vs) \<Longrightarrow>
     (\<forall>p\<in>set ps. (\<exists>v. snd p = Inr v) \<and> fst p \<le> t) \<and> (t = 0 \<or> t \<in> fst ` set ps)"
proof (induction ps arbitrary: t vs)
  case Nil
  then show ?case by simp
next
  case (Cons p ps)
  obtain t0 r0 where p: "p = (t0, r0)" by (cases p)
  obtain t1 r1 where rest: "promise_all ps = (t1, r1)" by (cases "promise_all ps")
  from Cons.prems p rest obtain v vs1 where
    r0: "r0 = Inr v" and r1: "r1 = Inr vs1" and t: "t = max t0 t1"
    by (auto split: sum.splits if_splits)
  from Cons.IH [of t1 vs1] rest r1
  have ih: "\<forall>q\<in>set ps. (\<exists>v. snd q = Inr v) \<and> fst q \<le> t1" "t1 = 0 \<or> t1 \<in> fst ` set ps"
    by simp_all
  have "\<forall>q\<in>set (p # ps). (\<exists>v. snd q = Inr v) \<and> fst q \<le> t"
    using ih(1) p r0 t by (auto simp: max_def)
  moreover have "t = 0 \<or> t \<in> fst ` set (p # ps)"
    using ih(2) p t by (auto simp: max_def)
  ultimately show ?case by blast
qed

lemma promise_all_Inl:
  "promise_all ps = (t, Inl err) \<Longrightarrow>
     (t, Inl err) \<in> set ps \<and> (\<forall>p\<in>set ps. \<forall>err'. snd p = Inl err' \<longrightarrow> t \<le> fst p)"
proof (induction ps arbitrary: t err)
  case Nil
  then show ?case by simp
next
  case (Cons p ps)
  obtain t0 r0 where p: "p = (t0, r0)" by (cases p)
  obtain t1 r1 where rest: "promise_all ps = (t1, r1)" by (cases "promise_all ps")
  show ?case
  proof (cases r1)
    case (Inl err1)
    from Cons.IH [of t1 err1] rest Inl
    have ih: "(t1, Inl err1) \<in> set ps" "\<forall>q\<in>set ps. \<forall>err'. snd q = Inl err' \<longrightarrow> t1 \<le> fst q"
      by simp_all
    show ?thesis
    proof (cases r0)
      case r0: (Inl err0)
      show ?thesis
      proof (cases "t1 < t0")
        case True
        with Cons.prems p rest Inl r0 have "t = t1" "err = err1" by simp_all
        with ih p r0 True show ?thesis by auto
      next
        case False
        with Cons.prems p rest Inl r0 have "t = t0" "err = err0" by simp_all
        with ih p r0 False show ?thesis by fastforce
      qed
    next
      case r0: (Inr v)
      with Cons.prems p rest Inl have "t = t1" "err = err1" by simp_all
      with ih p r0 show ?thesis by auto
    qed
  next
    case (Inr vs1)
    from promise_all_Inr [of ps t1 vs1] rest Inr
    have ok: "\<forall>q\<in>set ps. \<exists>v. snd q = Inr v" by simp
    from Cons.prems p rest Inr obtain "r0 = Inl err" "t = t0"
      by (auto split: sum.splits)
    with ok p show ?thesis by auto
  qed
qed

subsection \<open>One call for every stored peer\<close>

lemma upt_shift: "[0..<Suc n] = 0 # map Suc [0..<n]"
  by (simp add: upt_conv_Cons map_Suc_upt del: upt_Suc)

lemma sendMessage_each_world:
  "fst (sendMessage_each e message ps w) =
     w\<lparr>calls := calls w @ map (\<lambda>p. SendMessage (pubKey p) message) ps\<rparr>"
  by (induction ps arbitrary: w) (simp_all add: collab_defs case_prod_beta)

lemma sendMessage_each_answers:
  "snd (sendMessage_each e message ps w) =
     map (\<lambda>i. sendMessage_answer e (call_no w + i) (pubKey (ps ! i)) message) [0..<length ps]"
proof (induction ps arbitrary: w)
  case Nil
  then show ?case by simp
next
  case (Cons p ps)
  have "snd (sendMessage_each e message (p # ps) w) =
      sendMessage_answer e (call_no w) (pubKey p) message #
      snd (sendMessage_each e message ps (record_call (SendMessage (pubKey p) message) w))"
    by (simp add: client_sendMessage_def case_prod_beta)
  also have "snd (sendMessage_each e message ps (record_call (SendMessage (pubKey p) message) w)) =
      map (\<lambda>i. sendMessage_answer e (call_no w + Suc i) (pubKey (ps ! i)) message) [0..<length ps]"
    by (simp add: Cons.IH record_call_def call_no_def)
  finally show ?case
    by (simp add: upt_shift comp_def del: upt_Suc)
qed

lemma listen_each_world:
  "fst (listen_each e ps w) =
     w\<lparr>calls := calls w @ map (\<lambda>p. ListenForEncryptedMessage (pubKey p)) ps\<rparr>"
  by (induction ps arbitrary: w) (simp_all add: collab_defs case_prod_beta)

lemma listen_each_answers:
  "snd (listen_each e ps w) =
     map (\<lambda>i. listenForEncryptedMessage_answer e (call_no w + i) (pubKey (ps ! i))) [0..<length ps]"
proof (induction ps arbitrary: w)
  case Nil
  then show ?case by simp
next
  case (Cons p ps)
  have "snd (listen_each e (p # ps) w) =
      listenForEncryptedMessage_answer e (call_no w) (pubKey p) #
      snd (listen_each e ps (record_call (ListenForEncryptedMessage (pubKey p)) w))"
    by (simp add: listen_def client_listenForEncryptedMessage_def case_prod_beta)
  also have "snd (listen_each e ps (record_call (ListenForEncryptedMessage (pubKey p)) w)) =
      map (\<lambda>i. listenForEncryptedMessage_answer e (call_no w + Suc i) (pubKey (ps ! i)))
        [0..<length ps]"
    by (simp add: Cons.IH record_call_def call_no_def)
  finally show ?case
    by (simp add: upt_shift comp_def del: upt_Suc)
qed

subsection \<open>Sending to every peer\<close>

text \<open>
  Claim C1, at a registry of three peers. The send to \<open>A\<close> succeeds at time 5, the send
  to \<open>B\<close> fails at time 2 and the send to \<open>C\<close> fails at time 1. One send is made for
  each peer, but the broadcast is rejected at time 1, before the sends to \<open>A\<close> and
  \<open>B\<close> have settled, and with the error of the send to \<open>C\<close> alone.
\<close>

theorem broadcast_counterexample:
  "calls (fst (send env_send_fails ''m'' None (world_with True [peer_A, peer_B, peer_C]))) =
     [StorageGet, SendMessage ''A'' ''m'', SendMessage ''B'' ''m'', SendMessage ''C'' ''m''] \<and>
   sendMessage_answer env_send_fails 1 ''A'' ''m'' = (5, Inr ()) \<and>
   sendMessage_answer env_send_fails 2 ''B'' ''m'' = (2, Inl (Error ''B unreachable'')) \<and>
   sendMessage_answer env_send_fails 3 ''C'' ''m'' = (1, Inl (Error ''C unreachable'')) \<and>
   snd (send env_send_fails ''m'' None (world_with True [peer_A, peer_B, peer_C])) =
     (1, Inl (Error ''C unreachable''))"
  by (simp add: send_def truthy_def collab_defs concrete_defs)

text \<open>
  Claim C1, amended. A send without recipient, once the peer list has been read, makes
  exactly one \<^verbatim>\<open>sendMessage\<close> call for every stored peer, in the order of the list,
  and changes nothing else. If all these sends succeed, the call succeeds, and not before
  the last of them has settled. If one of them fails, the call fails as soon as the first
  failing send settles, with the error of that send; no send is undone.
\<close>

theorem broadcast_send:
  assumes "\<not> truthy recipient" and "get_answer e (call_no w) = Inr ()"
  shows
    "fst (send e message recipient w) =
       w\<lparr>calls := calls w @ StorageGet #
                   map (\<lambda>p. SendMessage (pubKey p) message) (storage_peers w)\<rparr> \<and>
     (let answers = map (\<lambda>i. sendMessage_answer e (Suc (call_no w) + i)
                                (pubKey (storage_peers w ! i)) message)
                        [0..<length (storage_peers w)]
      in case snd (send e message recipient w) of
           (t, Inr _) \<Rightarrow>
             (\<forall>a\<in>set answers. (\<exists>v. snd a = Inr v) \<and> fst a \<le> t) \<and>
             (t = 0 \<or> t \<in> fst ` set answers)
         | (t, Inl err) \<Rightarrow>
             (t, Inl err) \<in> set answers \<and>
             (\<forall>a\<in>set answers. \<forall>err'. snd a = Inl err' \<longrightarrow> t \<le> fst a))"
proof -
  let ?w1 = "record_call StorageGet w"
  let ?each = "sendMessage_each e message (storage_peers w) ?w1"
  let ?answers = "map (\<lambda>i. sendMessage_answer e (Suc (call_no w) + i)
                                (pubKey (storage_peers w ! i)) message)
                        [0..<length (storage_peers w)]"
  have answers: "snd ?each = ?answers"
    by (simp add: sendMessage_each_answers record_call_def call_no_def)
  have world: "fst ?each =
      w\<lparr>calls := calls w @ StorageGet #
                  map (\<lambda>p. SendMessage (pubKey p) message) (storage_peers w)\<rparr>"
    by (simp add: sendMessage_each_world record_call_def)
  obtain t r where all: "promise_all ?answers = (t, r)"
    by (cases "promise_all ?answers")
  have send: "send e message recipient w =
      (fst ?each, case r of Inl err \<Rightarrow> (t, Inl err) | Inr vs \<Rightarrow> (t, Inr ()))"
    using assms all answers
    by (simp add: send_def storage_get_def case_prod_beta prod_eq_iff split: sum.splits)
  show ?thesis
  proof (cases r)
    case (Inl err)
    with all promise_all_Inl [of ?answers t err] send world show ?thesis
      by (simp add: Let_def)
  next
    case (Inr vs)
    with all promise_all_Inr [of ?answers t vs] send world show ?thesis
      by (simp add: Let_def)
  qed
qed

theorem broadcast_send_witness:
  "\<not> truthy None \<and> get_answer env_ok (call_no (world_with True [peer_A, peer_B])) = Inr () \<and>
   send env_ok ''m'' None (world_with True [peer_A, peer_B]) =
     ((world_with True [peer_A, peer_B])
        \<lparr>calls := [StorageGet, SendMessage ''A'' ''m'', SendMessage ''B'' ''m'']\<rparr>,
      (1, Inr ()))"
proof -
  have h: "\<not> truthy None" "get_answer env_ok (call_no (world_with True [peer_A, peer_B])) = Inr ()"
    by (simp_all add: truthy_def concrete_defs)
  have "snd (send env_ok ''m'' None (world_with True [peer_A, peer_B])) = (1, Inr ())"
    by (simp add: send_def truthy_def collab_defs concrete_defs)
  moreover have "fst (send env_ok ''m'' None (world_with True [peer_A, peer_B])) =
      (world_with True [peer_A, peer_B])
        \<lparr>calls := [StorageGet, SendMessage ''A'' ''m'', SendMessage ''B'' ''m'']\<rparr>"
    using broadcast_send [OF h, of "''m''", THEN conjunct1]
    by (simp add: concrete_defs)
  ultimately show ?thesis
    using h by (simp add: prod_eq_iff)
qed

subsection \<open>Connecting to the stored peers\<close>

text \<open>
  Claim C2, at a registry of two peers. Listening for the messages of \<open>B\<close> fails:
  \<^verbatim>\<open>connect\<close> is rejected with that error and the state stays \<open>CONNECTING\<close>.
\<close>

theorem connect_listen_failure_counterexample:
  "storage_peers (world_with True [peer_A, peer_B]) \<noteq> [] \<and>
   snd (connect env_listen_fails (world_with True [peer_A, peer_B])) =
     Rejected (Error ''B unreachable'') \<and>
   isConnected (fst (connect env_listen_fails (world_with True [peer_A, peer_B]))) = CONNECTING"
  by (simp add: connect_def Let_def collab_defs concrete_defs)

text \<open>
  Claim C2, amended. For a non-empty stored list, after \<^verbatim>\<open>start\<close> and the read of the
  list have succeeded, \<^verbatim>\<open>connect\<close> makes one \<^verbatim>\<open>listenForEncryptedMessage\<close> call
  for every stored peer. If all of them succeed, \<^verbatim>\<open>connect\<close> succeeds and the state is
  \<open>CONNECTED\<close>. If one of them fails, \<^verbatim>\<open>connect\<close> fails with the error of the first
  failing call to settle and the state stays \<open>CONNECTING\<close>.
\<close>

theorem connect_known_peers:
  assumes "storage_peers w \<noteq> []"
    and "start_answer e (call_no w) = Inr ()"
    and "get_answer e (Suc (call_no w)) = Inr ()"
  shows
    "calls (fst (connect e w)) =
       calls w @ ClientStart # StorageGet #
         map (\<lambda>p. ListenForEncryptedMessage (pubKey p)) (storage_peers w) \<and>
     (let answers = map (\<lambda>i. listenForEncryptedMessage_answer e (call_no w + 2 + i)
                                (pubKey (storage_peers w ! i)))
                        [0..<length (storage_peers w)]
      in case snd (connect e w) of
           Resolved _ \<Rightarrow>
             isConnected (fst (connect e w)) = CONNECTED \<and>
             (\<forall>a\<in>set answers. \<exists>v. snd a = Inr v)
         | Rejected err \<Rightarrow>
             isConnected (fst (connect e w)) = CONNECTING \<and>
             (\<exists>t. (t, Inl err) \<in> set answers \<and>
                  (\<forall>a\<in>set answers. \<forall>err'. snd a = Inl err' \<longrightarrow> t \<le> fst a))
         | Pending \<Rightarrow> False)"
proof -
  let ?answers = "map (\<lambda>i. listenForEncryptedMessage_answer e (call_no w + 2 + i)
                                (pubKey (storage_peers w ! i)))
                        [0..<length (storage_peers w)]"
  obtain t r where all: "promise_all ?answers = (t, r)"
    by (cases "promise_all ?answers")
  show ?thesis
  proof (cases r)
    case (Inl err)
    with all have "promise_all ?answers = (t, Inl err)" by simp
    from promise_all_Inl [OF this] assms all Inl show ?thesis
      by (auto simp: connect_def Let_def collab_defs case_prod_beta
          listen_each_world listen_each_answers)
  next
    case (Inr vs)
    with all have "promise_all ?answers = (t, Inr vs)" by simp
    from promise_all_Inr [OF this] assms all Inr show ?thesis
      by (auto simp: connect_def Let_def collab_defs case_prod_beta
          listen_each_world listen_each_answers)
  qed
qed

theorem connect_known_peers_witness:
  "storage_peers (world_with True [peer_A, peer_B]) \<noteq> [] \<and>
   start_answer env_ok (call_no (world_with True [peer_A, peer_B])) = Inr () \<and>
   get_answer env_ok (Suc (call_no (world_with True [peer_A, peer_B]))) = Inr () \<and>
   calls (fst (connect env_ok (world_with True [peer_A, peer_B]))) =
     [ClientStart, StorageGet, ListenForEncryptedMessage ''A'', ListenForEncryptedMessage ''B''] \<and>
   connect env_ok (world_with True [peer_A, peer_B]) =
     ((world_with True [peer_A, peer_B])
        \<lparr>isConnected := CONNECTED,
         calls := [ClientStart, StorageGet, ListenForEncryptedMessage ''A'',
                   ListenForEncryptedMessage ''B''],
         logged := [LoggerLog ''connect'' NoArg, LoggerLog ''connect'' (ConnectingToPeers 2)]\<rparr>,
      Resolved ())"
proof -
  have h: "storage_peers (world_with True [peer_A, peer_B]) \<noteq> []"
    "start_answer env_ok (call_no (world_with True [peer_A, peer_B])) = Inr ()"
    "get_answer env_ok (Suc (call_no (world_with True [peer_A, peer_B]))) = Inr ()"
    by (simp_all add: concrete_defs)
  have "calls (fst (connect env_ok (world_with True [peer_A, peer_B]))) =
     [ClientStart, StorageGet, ListenForEncryptedMessage ''A'', ListenForEncryptedMessage ''B'']"
    using connect_known_peers [OF h, THEN conjunct1] by (simp add: concrete_defs)
  moreover have "connect env_ok (world_with True [peer_A, peer_B]) =
     ((world_with True [peer_A, peer_B])
        \<lparr>isConnected := CONNECTED,
         calls := [ClientStart, StorageGet, ListenForEncryptedMessage ''A'',
                   ListenForEncryptedMessage ''B''],
         logged := [LoggerLog ''connect'' NoArg, LoggerLog ''connect'' (ConnectingToPeers 2)]\<rparr>,
      Resolved ())"
    by (simp add: connect_def Let_def collab_defs concrete_defs)
  ultimately show ?thesis using h by simp
qed

subsection \<open>Persisting the registry\<close>

text \<open>
  Claim C6, at the channel-opening callback. The key \<open>K\<close> is new and the write of the
  extended list fails. The failure is logged and nothing more: the stored list stays
  empty, the callback goes on to listen for the messages of \<open>K\<close>, emits the success
  event and reaches its end without an error.
\<close>

theorem callback_persist_counterexample:
  "onChannelOpening env_set_fails ''K'' (init True) =
     ((init True)
        \<lparr>calls := [StorageGet, StorageSet [\<lparr>name = [], pubKey = ''K'', relayServer = []\<rparr>],
                   ListenForEncryptedMessage ''K'', Emit P2P_CHANNEL_CONNECT_SUCCESS None],
         logged := [LoggerLog ''connectNewPeer'' (NewPubKey ''K''),
                    LoggerError (Error ''write failed'')]\<rparr>,
      Resolved ()) \<and>
   storage_peers (fst (onChannelOpening env_set_fails ''K'' (init True))) = []"
  by (simp add: onChannelOpening_def Let_def collab_defs concrete_defs)

text \<open>
  Claim C6, amended. \<^verbatim>\<open>addPeer\<close>, \<^verbatim>\<open>removePeer\<close> and \<^verbatim>\<open>removeAllPeers\<close> await the
  write of the new list before anything else: when the write fails they fail with its
  error, the stored list is as before and the write is their last collaborator call; when
  they succeed the storage holds the new list. The channel-opening callback does not
  await its write: when the write fails, the error is logged, the stored list is as
  before, and the callback goes on to listen for the new peer.
\<close>

theorem mutation_persists:
  "(get_answer e (call_no w) = Inr () \<and>
    \<not> list_ex (\<lambda>peer. pubKey peer = pubKey p) (storage_peers w) \<and>
    set_answer e (Suc (call_no w)) (storage_peers w @ [p]) = Inl err \<longrightarrow>
      addPeer e p w =
        (w\<lparr>calls := calls w @ [StorageGet, StorageSet (storage_peers w @ [p])],
           logged := logged w @ [LoggerLog ''addPeer'' (PeerArg p)]\<rparr>, Rejected err)) \<and>
   (get_answer e (call_no w) = Inr () \<and>
    set_answer e (Suc (call_no w))
      (filter (\<lambda>peer. pubKey peer \<noteq> pubKey p) (storage_peers w)) = Inl err \<longrightarrow>
      removePeer e p w =
        (w\<lparr>calls := calls w @
              [StorageGet, StorageSet (filter (\<lambda>peer. pubKey peer \<noteq> pubKey p) (storage_peers w))],
           logged := logged w @ [LoggerLog ''removePeer'' (PeerArg p)]\<rparr>, Rejected err)) \<and>
   (set_answer e (call_no w) [] = Inl err \<longrightarrow>
      removeAllPeers e w =
        (w\<lparr>calls := calls w @ [StorageSet []],
           logged := logged w @ [LoggerLog ''removeAllPeers'' NoArg]\<rparr>, Rejected err)) \<and>
   (snd (addPeer e p w) = Resolved () \<longrightarrow>
      (if list_ex (\<lambda>peer. pubKey peer = pubKey p) (storage_peers w)
       then storage_peers (fst (addPeer e p w)) = storage_peers w
       else storage_peers (fst (addPeer e p w)) = storage_peers w @ [p])) \<and>
   (snd (removePeer e p w) = Resolved () \<longrightarrow>
      storage_peers (fst (removePeer e p w)) =
        filter (\<lambda>peer. pubKey peer \<noteq> pubKey p) (storage_peers w)) \<and>
   (snd (removeAllPeers e w) = Resolved () \<longrightarrow> storage_peers (fst (removeAllPeers e w)) = []) \<and>
   (get_answer e (call_no w) = Inr () \<and>
    \<not> list_ex (\<lambda>peer. pubKey peer = pk) (storage_peers w) \<and>
    set_answer e (Suc (call_no w))
      (storage_peers w @ [\<lparr>name = [], pubKey = pk, relayServer = []\<rparr>]) = Inl err \<longrightarrow>
      storage_peers (fst (onChannelOpening e pk w)) = storage_peers w \<and>
      take 2 (drop (length (logged w)) (logged (fst (onChannelOpening e pk w)))) =
        [LoggerLog ''connectNewPeer'' (NewPubKey pk), LoggerError err] \<and>
      take 3 (drop (length (calls w)) (calls (fst (onChannelOpening e pk w)))) =
        [StorageGet, StorageSet (storage_peers w @ [\<lparr>name = [], pubKey = pk, relayServer = []\<rparr>]),
         ListenForEncryptedMessage pk])"
proof (intro conjI impI)
  assume "get_answer e (call_no w) = Inr () \<and>
    \<not> list_ex (\<lambda>peer. pubKey peer = pubKey p) (storage_peers w) \<and>
    set_answer e (Suc (call_no w)) (storage_peers w @ [p]) = Inl err"
  then show "addPeer e p w =
        (w\<lparr>calls := calls w @ [StorageGet, StorageSet (storage_peers w @ [p])],
           logged := logged w @ [LoggerLog ''addPeer'' (PeerArg p)]\<rparr>, Rejected err)"
    by (simp add: addPeer_def Let_def collab_defs Peer_eta)
next
  assume "get_answer e (call_no w) = Inr () \<and>
    set_answer e (Suc (call_no w))
      (filter (\<lambda>peer. pubKey peer \<noteq> pubKey p) (storage_peers w)) = Inl err"
  then show "removePeer e p w =
        (w\<lparr>calls := calls w @
              [StorageGet, StorageSet (filter (\<lambda>peer. pubKey peer \<noteq> pubKey p) (storage_peers w))],
           logged := logged w @ [LoggerLog ''removePeer'' (PeerArg p)]\<rparr>, Rejected err)"
    by (simp add: removePeer_def Let_def collab_defs)
next
  assume "set_answer e (call_no w) [] = Inl err"
  then show "removeAllPeers e w =
        (w\<lparr>calls := calls w @ [StorageSet []],
           logged := logged w @ [LoggerLog ''removeAllPeers'' NoArg]\<rparr>, Rejected err)"
    by (simp add: removeAllPeers_def Let_def collab_defs)
next
  assume "snd (addPeer e p w) = Resolved ()"
  then show "if list_ex (\<lambda>peer. pubKey peer = pubKey p) (storage_peers w)
       then storage_peers (fst (addPeer e p w)) = storage_peers w
       else storage_peers (fst (addPeer e p w)) = storage_peers w @ [p]"
    by (simp add: addPeer_def Let_def collab_defs Peer_eta case_prod_beta
        split: sum.splits if_splits)
next
  assume "snd (removePeer e p w) = Resolved ()"
  then show "storage_peers (fst (removePeer e p w)) =
        filter (\<lambda>peer. pubKey peer \<noteq> pubKey p) (storage_peers w)"
    by (simp add: removePeer_def Let_def collab_defs split: sum.splits)
next
  assume "snd (removeAllPeers e w) = Resolved ()"
  then show "storage_peers (fst (removeAllPeers e w)) = []"
    by (simp add: removeAllPeers_def Let_def collab_defs split: sum.splits)
next
  assume a: "get_answer e (call_no w) = Inr () \<and>
    \<not> list_ex (\<lambda>peer. pubKey peer = pk) (storage_peers w) \<and>
    set_answer e (Suc (call_no w))
      (storage_peers w @ [\<lparr>name = [], pubKey = pk, relayServer = []\<rparr>]) = Inl err"
  then show "storage_peers (fst (onChannelOpening e pk w)) = storage_peers w"
    by (simp add: onChannelOpening_def Let_def collab_defs case_prod_beta split: sum.splits)
  from a show "take 2 (drop (length (logged w)) (logged (fst (onChannelOpening e pk w)))) =
        [LoggerLog ''connectNewPeer'' (NewPubKey pk), LoggerError err]"
    by (simp add: onChannelOpening_def Let_def collab_defs case_prod_beta split: sum.splits)
  from a show "take 3 (drop (length (calls w)) (calls (fst (onChannelOpening e pk w)))) =
        [StorageGet, StorageSet (storage_peers w @ [\<lparr>name = [], pubKey = pk, relayServer = []\<rparr>]),
         ListenForEncryptedMessage pk]"
    by (simp add: onChannelOpening_def Let_def collab_defs case_prod_beta split: sum.splits)
qed

theorem mutation_persists_witness:
  "addPeer env_set_fails peer_B (world_with True [peer_A]) =
     ((world_with True [peer_A])
        \<lparr>calls := [StorageGet, StorageSet [peer_A, peer_B]],
         logged := [LoggerLog ''addPeer'' (PeerArg peer_B)]\<rparr>,
      Rejected (Error ''write failed'')) \<and>
   removePeer env_set_fails peer_A (world_with True [peer_A]) =
     ((world_with True [peer_A])
        \<lparr>calls := [StorageGet, StorageSet []],
         logged := [LoggerLog ''removePeer'' (PeerArg peer_A)]\<rparr>,
      Rejected (Error ''write failed'')) \<and>
   removeAllPeers env_set_fails (world_with True [peer_A]) =
     ((world_with True [peer_A])
        \<lparr>calls := [StorageSet []], logged := [LoggerLog ''removeAllPeers'' NoArg]\<rparr>,
      Rejected (Error ''write failed'')) \<and>
   snd (addPeer env_ok peer_B (world_with True [peer_A])) = Resolved () \<and>
   storage_peers (fst (addPeer env_ok peer_B (world_with True [peer_A]))) = [peer_A, peer_B] \<and>
   snd (removePeer env_ok peer_A (world_with True [peer_A])) = Resolved () \<and>
   storage_peers (fst (removePeer env_ok peer_A (world_with True [peer_A]))) = [] \<and>
   snd (removeAllPeers env_ok (world_with True [peer_A])) = Resolved () \<and>
   storage_peers (fst (removeAllPeers env_ok (world_with True [peer_A]))) = [] \<and>
   storage_peers (fst (onChannelOpening env_set_fails ''K'' (world_with True [peer_A]))) = [peer_A]"
proof -
  have ok: "snd (addPeer env_ok peer_B (world_with True [peer_A])) = Resolved ()"
    "snd (removePeer env_ok peer_A (world_with True [peer_A])) = Resolved ()"
    "snd (removeAllPeers env_ok (world_with True [peer_A])) = Resolved ()"
    by (simp_all add: addPeer_def removePeer_def removeAllPeers_def Let_def collab_defs
        concrete_defs)
  show ?thesis
    using ok
      mutation_persists [of env_set_fails "world_with True [peer_A]" peer_B
        "Error ''write failed''" "''K''"]
      mutation_persists [of env_set_fails "world_with True [peer_A]" peer_A
        "Error ''write failed''" "''K''"]
      mutation_persists [of env_ok "world_with True [peer_A]" peer_B
        "Error ''write failed''" "''K''"]
      mutation_persists [of env_ok "world_with True [peer_A]" peer_A
        "Error ''write failed''" "''K''"]
    by (simp add: concrete_defs call_no_def)
qed

subsection \<open>Listening for channel openings once\<close>

lemma count_list_map_other: "\<forall>x\<in>set xs. f x \<noteq> c \<Longrightarrow> count_list (map f xs) c = 0"
  by (induction xs) simp_all

lemma guard_view_frame:
  "guard_view (w\<lparr>isConnected := s\<rparr>) = guard_view w"
  "guard_view (w\<lparr>storage_peers := ps\<rparr>) = guard_view w"
  "guard_view (w\<lparr>logged := ls\<rparr>) = guard_view w"
  "c \<noteq> ListenForChannelOpening \<Longrightarrow> guard_view (w\<lparr>calls := calls w @ [c]\<rparr>) = guard_view w"
  by (simp_all add: guard_view_def)

lemma guard_view_connectNewPeer:
  "listeningForChannelOpenings w \<Longrightarrow> guard_view (fst (connectNewPeer e k w)) = guard_view w"
  by (simp add: connectNewPeer_def Let_def collab_defs guard_view_def split: sum.splits)

lemma guard_ok_connectNewPeer: "guard_ok w \<Longrightarrow> guard_ok (fst (connectNewPeer e k w))"
  by (simp add: connectNewPeer_def Let_def collab_defs guard_ok_def case_prod_beta
      split: sum.splits if_splits)

lemma guard_view_onChannelOpening: "guard_view (fst (onChannelOpening e pk w)) = guard_view w"
  by (simp add: onChannelOpening_def Let_def collab_defs guard_view_def case_prod_beta
      split: sum.splits)

lemma guard_view_resolve: "guard_view (resolve i w) = guard_view w"
  by (simp add: resolve_def continue_def super_connect_def guard_view_def
      split: option.splits continuation.splits)

lemma guard_view_invoke_callback: "guard_view (invoke_callback e pk i w) = guard_view w"
proof -
  obtain w' r where c: "onChannelOpening e pk w = (w', r)"
    by (cases "onChannelOpening e pk w")
  then have "guard_view w' = guard_view w"
    using guard_view_onChannelOpening [of e pk w] by simp
  with c show ?thesis
    by (simp add: invoke_callback_def guard_view_resolve split: outcome.splits)
qed

lemma guard_view_fold:
  "guard_view (fold (invoke_callback e pk) is w) = guard_view w"
  by (induction "is" arbitrary: w) (simp_all add: guard_view_invoke_callback)

lemma guard_view_channelOpening: "guard_view (channelOpening e pk w) = guard_view w"
  by (simp add: channelOpening_def guard_view_fold)

lemma guard_view_getPeers: "guard_view (fst (getPeers e w)) = guard_view w"
  by (simp add: getPeers_def Let_def collab_defs guard_view_def split: sum.splits)

lemma guard_view_addPeer: "guard_view (fst (addPeer e p w)) = guard_view w"
  by (simp add: addPeer_def Let_def collab_defs guard_view_def case_prod_beta
      split: sum.splits)

lemma guard_view_removePeer: "guard_view (fst (removePeer e p w)) = guard_view w"
  by (simp add: removePeer_def Let_def collab_defs guard_view_def split: sum.splits)

lemma guard_view_removeAllPeers: "guard_view (fst (removeAllPeers e w)) = guard_view w"
  by (simp add: removeAllPeers_def Let_def collab_defs guard_view_def split: sum.splits)

lemma guard_view_send: "guard_view (fst (send e message recipient w)) = guard_view w"
  by (simp add: send_def collab_defs guard_view_def case_prod_beta sendMessage_each_world
      count_list_map_other split: sum.splits)

text \<open>
  \<^verbatim>\<open>connect\<close> either stops before the peers, or listens to each stored peer, or goes
  through \<^verbatim>\<open>connectNewPeer\<close>, or goes straight to \<^verbatim>\<open>super.connect()\<close>.
\<close>

lemma connect_shape:
  "guard_view (fst (connect e w)) = guard_view w \<or>
   (\<exists>w4. guard_view w4 = guard_view w \<and>
         fst (connect e w) = fst (connectNewPeer e ThenSuperConnect w4))"
proof -
  let ?w2 = "(write_log (LoggerLog ''connect'' NoArg) w)\<lparr>isConnected := CONNECTING\<rparr>"
  let ?w4 = "record_call StorageGet (record_call ClientStart ?w2)"
  have w4: "guard_view ?w4 = guard_view w"
    by (simp add: guard_view_def record_call_def write_log_def)
  consider (stop) "\<exists>err. start_answer e (call_no ?w2) = Inl err \<or>
        get_answer e (call_no (record_call ClientStart ?w2)) = Inl err"
    | (go) "start_answer e (call_no ?w2) = Inr ()"
        "get_answer e (call_no (record_call ClientStart ?w2)) = Inr ()"
    by (cases "start_answer e (call_no ?w2)";
        cases "get_answer e (call_no (record_call ClientStart ?w2))") auto
  then show ?thesis
  proof cases
    case stop
    then have "guard_view (fst (connect e w)) = guard_view w"
      by (auto simp: connect_def Let_def collab_defs guard_view_def split: sum.splits)
    then show ?thesis ..
  next
    case go
    show ?thesis
    proof (cases "storage_peers w = []")
      case False
      with go have "guard_view (fst (connect e w)) = guard_view w"
        by (simp add: connect_def Let_def collab_defs guard_view_def case_prod_beta
            listen_each_world count_list_map_other split: sum.splits)
      then show ?thesis ..
    next
      case True
      show ?thesis
      proof (cases "isDapp w")
        case False
        with True go have "guard_view (fst (connect e w)) = guard_view w"
          by (simp add: connect_def Let_def collab_defs guard_view_def)
        then show ?thesis ..
      next
        case dapp: True
        obtain w5 where c: "connectNewPeer e ThenSuperConnect ?w4 = (w5, Pending)"
          using connectNewPeer_Pending [of e ThenSuperConnect ?w4]
          by (cases "connectNewPeer e ThenSuperConnect ?w4") simp
        have "connect e w = (w5, Pending)"
          using True dapp go c
          by (simp add: connect_def Let_def client_start_def storage_get_def await_def
              record_call_def write_log_def call_no_def)
        with c w4 show ?thesis by (metis fst_conv)
      qed
    qed
  qed
qed

lemma guard_ok_cong: "guard_view w' = guard_view w \<Longrightarrow> guard_ok w \<Longrightarrow> guard_ok w'"
  by (simp add: guard_view_def guard_ok_def)

lemma guard_ok_step: "guard_ok w \<Longrightarrow> guard_ok (step e op w)"
proof (cases op)
  case Connect
  assume ok: "guard_ok w"
  from connect_shape [of e w] show ?thesis
  proof
    assume "guard_view (fst (connect e w)) = guard_view w"
    with ok Connect show ?thesis by (simp add: step_def guard_ok_cong)
  next
    assume "\<exists>w4. guard_view w4 = guard_view w \<and>
         fst (connect e w) = fst (connectNewPeer e ThenSuperConnect w4)"
    then obtain w4 where w4: "guard_view w4 = guard_view w"
      "fst (connect e w) = fst (connectNewPeer e ThenSuperConnect w4)" by blast
    from w4(1) ok have "guard_ok w4" by (rule guard_ok_cong)
    then have "guard_ok (fst (connectNewPeer e ThenSuperConnect w4))"
      by (rule guard_ok_connectNewPeer)
    with w4(2) Connect show ?thesis by (simp add: step_def)
  qed
next
  case Reconnect
  assume "guard_ok w"
  with Reconnect show ?thesis
    using guard_ok_connectNewPeer [of w e ThenNothing] connectNewPeer_Pending [of e ThenNothing w]
    by (simp add: step_def reconnect_def case_prod_beta)
next
  case ConnectNewPeer
  assume "guard_ok w"
  with ConnectNewPeer show ?thesis by (simp add: step_def guard_ok_connectNewPeer)
next
  case GetPeers
  assume "guard_ok w"
  with GetPeers show ?thesis by (simp add: step_def guard_ok_cong [OF guard_view_getPeers])
next
  case (AddPeer p)
  assume "guard_ok w"
  with AddPeer show ?thesis by (simp add: step_def guard_ok_cong [OF guard_view_addPeer])
next
  case (RemovePeer p)
  assume "guard_ok w"
  with RemovePeer show ?thesis by (simp add: step_def guard_ok_cong [OF guard_view_removePeer])
next
  case RemoveAllPeers
  assume "guard_ok w"
  with RemoveAllPeers show ?thesis
    by (simp add: step_def guard_ok_cong [OF guard_view_removeAllPeers])
next
  case (Send message recipient)
  assume "guard_ok w"
  with Send show ?thesis by (simp add: step_def guard_ok_cong [OF guard_view_send])
next
  case (ChannelOpening pk)
  assume "guard_ok w"
  with ChannelOpening show ?thesis
    by (simp add: step_def guard_ok_cong [OF guard_view_channelOpening])
qed

lemma guard_ok_run: "guard_ok w \<Longrightarrow> guard_ok (run ops w)"
  by (induction ops arbitrary: w) (auto simp: guard_ok_step)

lemma guard_view_step:
  assumes "listeningForChannelOpenings w"
  shows "guard_view (step e op w) = guard_view w"
proof (cases op)
  case Connect
  from connect_shape [of e w] show ?thesis
  proof
    assume "guard_view (fst (connect e w)) = guard_view w"
    with Connect show ?thesis by (simp add: step_def)
  next
    assume "\<exists>w4. guard_view w4 = guard_view w \<and>
         fst (connect e w) = fst (connectNewPeer e ThenSuperConnect w4)"
    then obtain w4 where w4: "guard_view w4 = guard_view w"
      "fst (connect e w) = fst (connectNewPeer e ThenSuperConnect w4)" by blast
    from w4(1) assms have "listeningForChannelOpenings w4" by (simp add: guard_view_def)
    then have "guard_view (fst (connectNewPeer e ThenSuperConnect w4)) = guard_view w4"
      by (rule guard_view_connectNewPeer)
    with w4 Connect show ?thesis by (simp add: step_def)
  qed
next
  case Reconnect
  with assms show ?thesis
    using guard_view_connectNewPeer [of w e ThenNothing]
    by (simp add: step_def reconnect_def case_prod_beta split: outcome.splits)
next
  case ConnectNewPeer
  with assms show ?thesis by (simp add: step_def guard_view_connectNewPeer)
next
  case GetPeers
  then show ?thesis by (simp add: step_def guard_view_getPeers)
next
  case (AddPeer p)
  then show ?thesis by (simp add: step_def guard_view_addPeer)
next
  case (RemovePeer p)
  then show ?thesis by (simp add: step_def guard_view_removePeer)
next
  case RemoveAllPeers
  then show ?thesis by (simp add: step_def guard_view_removeAllPeers)
next
  case (Send message recipient)
  then show ?thesis by (simp add: step_def guard_view_send)
next
  case (ChannelOpening pk)
  then show ?thesis by (simp add: step_def guard_view_channelOpening)
qed

text \<open>
  The guard, for operations that do not overlap. Whatever operations a new transport goes
  through, each begun after the one before has passed its awaits of the collaborators, and
  whatever the collaborators answer, the client holds at most one channel-opening
  callback, and it holds one exactly when the flag \<^verbatim>\<open>listeningForChannelOpenings\<close> is
  set. In any state where the flag is set, an operation leaves the flag set, makes no
  \<^verbatim>\<open>listenForChannelOpening\<close> call and leaves the number of callbacks as it is.
\<close>

theorem listen_once:
  "length (channelOpeningCallbacks (run ops (init dapp))) \<le> 1 \<and>
   (listeningForChannelOpenings (run ops (init dapp)) \<longleftrightarrow>
      length (channelOpeningCallbacks (run ops (init dapp))) = 1) \<and>
   (listeningForChannelOpenings w \<longrightarrow>
      listeningForChannelOpenings (step e op w) \<and>
      length (channelOpeningCallbacks (step e op w)) = length (channelOpeningCallbacks w) \<and>
      count_list (calls (step e op w)) ListenForChannelOpening =
        count_list (calls w) ListenForChannelOpening)"
proof -
  have "guard_ok (init dapp)"
    by (simp add: guard_ok_def init_def)
  then have "guard_ok (run ops (init dapp))"
    by (rule guard_ok_run)
  then have reach: "length (channelOpeningCallbacks (run ops (init dapp))) \<le> 1 \<and>
      (listeningForChannelOpenings (run ops (init dapp)) \<longleftrightarrow>
         length (channelOpeningCallbacks (run ops (init dapp))) = 1)"
    by (simp add: guard_ok_def split: if_splits)
  have "listeningForChannelOpenings w \<longrightarrow> guard_view (step e op w) = guard_view w"
    by (simp add: guard_view_step)
  then have "listeningForChannelOpenings w \<longrightarrow>
      listeningForChannelOpenings (step e op w) \<and>
      length (channelOpeningCallbacks (step e op w)) = length (channelOpeningCallbacks w) \<and>
      count_list (calls (step e op w)) ListenForChannelOpening =
        count_list (calls w) ListenForChannelOpening"
    by (simp add: guard_view_def)
  with reach show ?thesis by blast
qed

theorem listen_once_witness:
  "listeningForChannelOpenings (run [(env_ok, Connect)] (init True)) \<and>
   calls (run [(env_ok, Connect), (env_ok, Reconnect), (env_ok, ConnectNewPeer)] (init True)) =
     [ClientStart, StorageGet, ListenForChannelOpening, GetHandshakeInfo,
      Emit P2P_LISTEN_FOR_CHANNEL_OPEN (Some ''handshake''),
      GetHandshakeInfo, Emit P2P_LISTEN_FOR_CHANNEL_OPEN (Some ''handshake''),
      GetHandshakeInfo, Emit P2P_LISTEN_FOR_CHANNEL_OPEN (Some ''handshake'')] \<and>
   length (channelOpeningCallbacks
     (run [(env_ok, Connect), (env_ok, Reconnect), (env_ok, ConnectNewPeer)] (init True))) = 1 \<and>
   length (channelOpeningCallbacks (step env_ok Reconnect (run [(env_ok, Connect)] (init True)))) =
     length (channelOpeningCallbacks (run [(env_ok, Connect)] (init True)))"
proof -
  have l: "listeningForChannelOpenings (run [(env_ok, Connect)] (init True))"
    by (simp add: step_def connect_def connectNewPeer_def Let_def collab_defs concrete_defs)
  have c: "calls (run [(env_ok, Connect), (env_ok, Reconnect), (env_ok, ConnectNewPeer)]
        (init True)) =
     [ClientStart, StorageGet, ListenForChannelOpening, GetHandshakeInfo,
      Emit P2P_LISTEN_FOR_CHANNEL_OPEN (Some ''handshake''),
      GetHandshakeInfo, Emit P2P_LISTEN_FOR_CHANNEL_OPEN (Some ''handshake''),
      GetHandshakeInfo, Emit P2P_LISTEN_FOR_CHANNEL_OPEN (Some ''handshake'')]"
    by (simp add: step_def connect_def reconnect_def connectNewPeer_def Let_def collab_defs
        concrete_defs)
  have n: "length (channelOpeningCallbacks
     (run [(env_ok, Connect), (env_ok, Reconnect), (env_ok, ConnectNewPeer)] (init True))) = 1"
    by (simp add: step_def connect_def reconnect_def connectNewPeer_def Let_def collab_defs
        concrete_defs)
  from l listen_once [of "[]" True "run [(env_ok, Connect)] (init True)" env_ok Reconnect]
  have "length (channelOpeningCallbacks
      (step env_ok Reconnect (run [(env_ok, Connect)] (init True)))) =
     length (channelOpeningCallbacks (run [(env_ok, Connect)] (init True)))"
    by blast
  with l c n show ?thesis by blast
qed

subsection \<open>Overlapping calls of connectNewPeer\<close>

text \<open>
  Run from its call to the end of its executor without another call in between, the
  executor cut at its \<^verbatim>\<open>await\<close>s does what \<open>connectNewPeer\<close> does.
\<close>

lemma connectNewPeer_steps:
  "connectNewPeer e k w =
     (case connectNewPeer_start e k w of (w1, s1) \<Rightarrow>
      case connectNewPeer_resume e s1 w1 of
        (w2, None) \<Rightarrow> (w2, Pending)
      | (w2, Some s2) \<Rightarrow> (fst (connectNewPeer_resume e s2 w2), Pending))"
  by (simp add: connectNewPeer_def connectNewPeer_start_def connectNewPeer_resume_def Let_def
      collab_defs split: sum.splits)

text \<open>
  Claim C5, at two calls of \<^verbatim>\<open>connectNewPeer\<close> in the same turn on a new dApp transport
  whose collaborators all succeed. The second call finds the flag still unset, because
  the first call sets it only after its \<^verbatim>\<open>await\<close>: \<^verbatim>\<open>listenForChannelOpening\<close> is
  called twice, the client holds two callbacks, and a channel opening for a new key
  \<open>K\<close> then runs the callback twice (the success event is emitted twice).
\<close>

theorem connectNewPeer_twice_installs_two:
  "calls (connectNewPeer_twice env_ok (init True)) =
     [ListenForChannelOpening, ListenForChannelOpening,
      GetHandshakeInfo, GetHandshakeInfo,
      Emit P2P_LISTEN_FOR_CHANNEL_OPEN (Some ''handshake''),
      Emit P2P_LISTEN_FOR_CHANNEL_OPEN (Some ''handshake'')] \<and>
   count_list (calls (connectNewPeer_twice env_ok (init True))) ListenForChannelOpening = 2 \<and>
   channelOpeningCallbacks (connectNewPeer_twice env_ok (init True)) =
     [Some ThenNothing, Some ThenNothing] \<and>
   drop 6 (calls (channelOpening env_ok ''K'' (connectNewPeer_twice env_ok (init True)))) =
     [StorageGet, StorageSet [\<lparr>name = [], pubKey = ''K'', relayServer = []\<rparr>],
      ListenForEncryptedMessage ''K'', Emit P2P_CHANNEL_CONNECT_SUCCESS None,
      StorageGet, Emit P2P_CHANNEL_CONNECT_SUCCESS None]"
proof -
  have w: "connectNewPeer_twice env_ok (init True) =
      (init True)
        \<lparr>listeningForChannelOpenings := True,
         channelOpeningCallbacks := [Some ThenNothing, Some ThenNothing],
         calls := [ListenForChannelOpening, ListenForChannelOpening,
                   GetHandshakeInfo, GetHandshakeInfo,
                   Emit P2P_LISTEN_FOR_CHANNEL_OPEN (Some ''handshake''),
                   Emit P2P_LISTEN_FOR_CHANNEL_OPEN (Some ''handshake'')],
         logged := [LoggerLog ''connectNewPeer'' NoArg, LoggerLog ''connectNewPeer'' NoArg]\<rparr>"
    by (simp add: connectNewPeer_twice_def connectNewPeer_start_def connectNewPeer_resume_def
        Let_def collab_defs concrete_defs)
  have up: "[0..<2] = [0, Suc 0]"
    by (simp add: upt_conv_Cons)
  have "drop 6 (calls (channelOpening env_ok ''K'' (connectNewPeer_twice env_ok (init True)))) =
     [StorageGet, StorageSet [\<lparr>name = [], pubKey = ''K'', relayServer = []\<rparr>],
      ListenForEncryptedMessage ''K'', Emit P2P_CHANNEL_CONNECT_SUCCESS None,
      StorageGet, Emit P2P_CHANNEL_CONNECT_SUCCESS None]"
    by (simp only: w)
      (simp add: channelOpening_def invoke_callback_def onChannelOpening_def resolve_def
        continue_def Let_def collab_defs concrete_defs up)
  moreover have "calls (connectNewPeer_twice env_ok (init True)) =
     [ListenForChannelOpening, ListenForChannelOpening,
      GetHandshakeInfo, GetHandshakeInfo,
      Emit P2P_LISTEN_FOR_CHANNEL_OPEN (Some ''handshake''),
      Emit P2P_LISTEN_FOR_CHANNEL_OPEN (Some ''handshake'')]"
    by (simp only: w) simp
  moreover have "count_list (calls (connectNewPeer_twice env_ok (init True)))
      ListenForChannelOpening = 2"
    by (simp only: w) simp
  moreover have "channelOpeningCallbacks (connectNewPeer_twice env_ok (init True)) =
     [Some ThenNothing, Some ThenNothing]"
    by (simp only: w) simp
  ultimately show ?thesis by blast
qed

end
